theory Spec2Isabelle
  imports Main "HOL-Library.Monad_Syntax" "HOL-Library.Multiset"
begin

section \<open>JavaScript values\<close>

text \<open>
  The screens consume backend rows, cached blobs and HTTP responses as untyped JSON
  (\<^verbatim>\<open>any\<close>). A value is one of JavaScript's JSON-shaped values. Numbers are
  integers here: the code only tests them for truthiness and interpolates them into
  strings. An object is its list of own properties in insertion order.
\<close>

datatype json =
    JUndefined
  | JNull
  | JBool bool
  | JNum int
  | JStr string
  | JArr "json list"
  | JObj "(string \<times> json) list"

text \<open>\<^verbatim>\<open>if (v)\<close>, \<^verbatim>\<open>!v\<close>, \<^verbatim>\<open>v || d\<close>: JavaScript's ToBoolean.\<close>

fun truthy :: "json \<Rightarrow> bool" where
  "truthy JUndefined = False"
| "truthy JNull = False"
| "truthy (JBool b) = b"
| "truthy (JNum n) = (n \<noteq> 0)"
| "truthy (JStr s) = (s \<noteq> [])"
| "truthy (JArr xs) = True"
| "truthy (JObj fs) = True"

fun nullish :: "json \<Rightarrow> bool" where
  "nullish JUndefined = True"
| "nullish JNull = True"
| "nullish v = False"

fun isArray :: "json \<Rightarrow> bool" where
  "isArray (JArr xs) = True"
| "isArray v = False"

text \<open>
  Reading a named property of a value that is neither \<^verbatim>\<open>null\<close> nor
  \<^verbatim>\<open>undefined\<close>. Only objects carry the names the screens read this way; a
  string, number, boolean or array yields \<^verbatim>\<open>undefined\<close> for them.
\<close>

fun field :: "string \<Rightarrow> json \<Rightarrow> json" where
  "field k (JObj fs) = (case map_of fs k of Some v \<Rightarrow> v | None \<Rightarrow> JUndefined)"
| "field k v = JUndefined"

text \<open>\<^verbatim>\<open>v.k\<close>: a TypeError (\<open>None\<close>) when \<open>v\<close> is null or undefined.\<close>

definition getProp :: "json \<Rightarrow> string \<Rightarrow> json option" where
  "getProp v k = (if nullish v then None else Some (field k v))"

text \<open>\<^verbatim>\<open>v?.k\<close>: optional chaining never throws.\<close>

definition optProp :: "json \<Rightarrow> string \<Rightarrow> json" where
  "optProp v k = (if nullish v then JUndefined else field k v)"

text \<open>\<^verbatim>\<open>v[0]\<close>.\<close>

fun index0 :: "json \<Rightarrow> json option" where
  "index0 JUndefined = None"
| "index0 JNull = None"
| "index0 (JArr xs) = Some (case xs of [] \<Rightarrow> JUndefined | x # _ \<Rightarrow> x)"
| "index0 (JStr s) = Some (case s of [] \<Rightarrow> JUndefined | c # _ \<Rightarrow> JStr [c])"
| "index0 v = Some (field ''0'' v)"

subsection \<open>Strings\<close>

fun digitsOf :: "nat \<Rightarrow> string" where
  "digitsOf n =
     (if n < 10 then [char_of (48 + n)]
      else digitsOf (n div 10) @ [char_of (48 + n mod 10)])"

definition showInt :: "int \<Rightarrow> string" where
  "showInt i = (if i < 0 then CHR ''-'' # digitsOf (nat (- i)) else digitsOf (nat i))"

fun joinWith :: "string \<Rightarrow> string list \<Rightarrow> string" where
  "joinWith sep [] = []"
| "joinWith sep [x] = x"
| "joinWith sep (x # y # ys) = x @ sep @ joinWith sep (y # ys)"

text \<open>Template interpolation \<^verbatim>\<open>`${v}`\<close> and \<^verbatim>\<open>v + 'd'\<close>: ToString.\<close>

fun toStringJS :: "json \<Rightarrow> string" where
  "toStringJS JUndefined = ''undefined''"
| "toStringJS JNull = ''null''"
| "toStringJS (JBool b) = (if b then ''true'' else ''false'')"
| "toStringJS (JNum n) = showInt n"
| "toStringJS (JStr s) = s"
| "toStringJS (JArr xs) =
     joinWith '','' (map (\<lambda>x. if nullish x then [] else toStringJS x) xs)"
| "toStringJS (JObj fs) = ''[object Object]''"

definition toLowerChar :: "char \<Rightarrow> char" where
  "toLowerChar c =
     (let n = (of_char c :: nat) in if 65 \<le> n \<and> n \<le> 90 then char_of (n + 32) else c)"

definition toUpperChar :: "char \<Rightarrow> char" where
  "toUpperChar c =
     (let n = (of_char c :: nat) in if 97 \<le> n \<and> n \<le> 122 then char_of (n - 32) else c)"

definition toLowerCase :: "string \<Rightarrow> string" where
  "toLowerCase s = map toLowerChar s"

fun startsWith :: "string \<Rightarrow> string \<Rightarrow> bool" where
  "startsWith s [] = True"
| "startsWith [] (p # ps) = False"
| "startsWith (c # cs) (p # ps) = (c = p \<and> startsWith cs ps)"

fun includesStr :: "string \<Rightarrow> string \<Rightarrow> bool" where
  "includesStr [] p = (p = [])"
| "includesStr (c # cs) p = (startsWith (c # cs) p \<or> includesStr cs p)"

text \<open>\<^verbatim>\<open>s.charAt(0).toUpperCase() + s.slice(1)\<close>\<close>

fun capitalize :: "string \<Rightarrow> string" where
  "capitalize [] = []"
| "capitalize (c # cs) = toUpperChar c # cs"

text \<open>\<^verbatim>\<open>s.split(" ")\<close>\<close>

fun splitOn :: "char \<Rightarrow> string \<Rightarrow> string list" where
  "splitOn d [] = [[]]"
| "splitOn d (c # cs) =
     (if c = d then [] # splitOn d cs
      else (case splitOn d cs of [] \<Rightarrow> [[c]] | w # ws \<Rightarrow> (c # w) # ws))"

text \<open>
  A string method called on a JSON value: a TypeError (\<open>None\<close>) unless the value is a
  string (on null and undefined the property read fails, on anything else the property
  is not a function).
\<close>

fun asString :: "json \<Rightarrow> string option" where
  "asString (JStr s) = Some s"
| "asString v = None"

section \<open>The environment of the screens\<close>

text \<open>
  Every call that leaves the component is an event. The trace of a run lists its events
  in order; the environment decides, per call, whether it fails.
\<close>

datatype event =
    SetItem string string
  | GetItem string
  | GetCachedTrailData string
  | CacheTrailData string json
  | TripsSelectById string
  | GetCachedWeatherData string
  | CacheWeatherData string json
  | HttpGet string
  | ConsoleLog string
  | ConsoleError string
  | GetUser
  | PlansSelectByUser json
  | TripsSelectBookmarked json
  | PlansDatesByUser json
  | PlanSelectTripIds string
  | TripsDeleteIn "json list"
  | DeleteCachedTrailData json
  | DeleteCachedChatMessages json
  | PlanDelete string
  | Alert string string

record world =
  asyncStorage :: "string \<rightharpoonup> string"
  trailCache :: "string \<rightharpoonup> json"
  weatherCache :: "string \<rightharpoonup> json"
  chatCache :: "string \<rightharpoonup> json"
  tripsTable :: "json list"
  plansTable :: "json list"
  authUser :: json
  http :: "string \<Rightarrow> json option"
  fails :: "event \<Rightarrow> bool"
  trace :: "event list"

definition emit :: "event \<Rightarrow> world \<Rightarrow> world" where
  "emit e w = w\<lparr>trace := trace w @ [e]\<rparr>"

text \<open>
  A call returns its value, or \<open>None\<close> when it throws (the promise rejects), and the
  world after it.
\<close>

type_synonym 'a call = "world \<Rightarrow> 'a option \<times> world"

subsection \<open>AsyncStorage\<close>

definition setItem :: "string \<Rightarrow> string \<Rightarrow> unit call" where
  "setItem k v w =
     (if fails w (SetItem k v) then (None, emit (SetItem k v) w)
      else (Some (), emit (SetItem k v) (w\<lparr>asyncStorage := (asyncStorage w)(k \<mapsto> v)\<rparr>)))"

definition getItem :: "string \<Rightarrow> string option call" where
  "getItem k w =
     (if fails w (GetItem k) then (None, emit (GetItem k) w)
      else (Some (asyncStorage w k), emit (GetItem k) w))"

subsection \<open>The cache service\<close>

text \<open>
  Modelled from the spec: \<^verbatim>\<open>services/cacheService\<close> is imported by the screens
  and is not part of the sources at hand. The spec describes it as local persistence of
  "cached JSON blobs for weather/trail data", "a shallow read-through cache with no
  eviction policy" and "simple key lookup": a get returns the blob stored under the key
  or \<^verbatim>\<open>null\<close>, a set stores it, a delete removes it.
\<close>

definition getCachedTrailData :: "string \<Rightarrow> json call" where
  "getCachedTrailData k w =
     (if fails w (GetCachedTrailData k) then (None, emit (GetCachedTrailData k) w)
      else (Some (case trailCache w k of None \<Rightarrow> JNull | Some v \<Rightarrow> v),
            emit (GetCachedTrailData k) w))"

definition cacheTrailData :: "string \<Rightarrow> json \<Rightarrow> unit call" where
  "cacheTrailData k v w =
     (if fails w (CacheTrailData k v) then (None, emit (CacheTrailData k v) w)
      else (Some (), emit (CacheTrailData k v) (w\<lparr>trailCache := (trailCache w)(k \<mapsto> v)\<rparr>)))"

definition getCachedWeatherData :: "string \<Rightarrow> json call" where
  "getCachedWeatherData k w =
     (if fails w (GetCachedWeatherData k) then (None, emit (GetCachedWeatherData k) w)
      else (Some (case weatherCache w k of None \<Rightarrow> JNull | Some v \<Rightarrow> v),
            emit (GetCachedWeatherData k) w))"

definition cacheWeatherData :: "string \<Rightarrow> json \<Rightarrow> unit call" where
  "cacheWeatherData k v w =
     (if fails w (CacheWeatherData k v) then (None, emit (CacheWeatherData k v) w)
      else (Some (),
            emit (CacheWeatherData k v) (w\<lparr>weatherCache := (weatherCache w)(k \<mapsto> v)\<rparr>)))"

subsection \<open>The backend and the weather provider\<close>

text \<open>
  \<^verbatim>\<open>supabase.from('trips').select().eq('trip_id', id)\<close> resolves to
  \<^verbatim>\<open>{ data, error }\<close> and does not throw: \<open>data\<close> is the list of matching rows,
  or \<^verbatim>\<open>null\<close> (\<open>None\<close>) when the request fails.
\<close>

definition tripsSelectById :: "string \<Rightarrow> world \<Rightarrow> json list option \<times> world" where
  "tripsSelectById i w =
     (if fails w (TripsSelectById i) then (None, emit (TripsSelectById i) w)
      else (Some (filter (\<lambda>r. field ''trip_id'' r = JStr i) (tripsTable w)),
            emit (TripsSelectById i) w))"

text \<open>
  \<^verbatim>\<open>(await fetch(url)).json()\<close>: the parsed body, or \<open>None\<close> when the request or
  the parsing throws.
\<close>

definition fetchJson :: "string \<Rightarrow> json call" where
  "fetchJson url w = (http w url, emit (HttpGet url) w)"

section \<open>InfoTab\<close>

record weatherView =
  temperature :: string
  status :: string
  precipitation :: string
  high :: string
  low :: string
  feels_like :: string
  humidity :: string
  seaLevel :: string
  sunrise :: string
  sunset :: string
  iconUrl :: string

record infoState =
  tripInfo :: json
  loading :: bool
  error :: "string option"
  weather :: "weatherView option"

text \<open>The state a freshly mounted InfoTab starts from (its \<^verbatim>\<open>useState\<close> calls).\<close>

definition initialInfoState :: infoState where
  "initialInfoState = \<lparr>tripInfo = JNull, loading = True, error = None, weather = None\<rparr>"

subsection \<open>fetchTripInfo\<close>

definition strTruthy :: "string option \<Rightarrow> bool" where
  "strTruthy s = (case s of None \<Rightarrow> False | Some t \<Rightarrow> t \<noteq> [])"

text \<open>
  \<^verbatim>\<open>tripData?.id\<close>: the \<^verbatim>\<open>Trip\<close> type declares \<open>id\<close> as an optional string.
\<close>

definition tripDataId :: "json \<Rightarrow> string option" where
  "tripDataId tripData = asString (optProp tripData ''id'')"

text \<open>Lines 72 to 76: the id the caller supplies, the prop first, then \<^verbatim>\<open>tripData.id\<close>.\<close>

definition suppliedTripId :: "string option \<Rightarrow> json \<Rightarrow> string option" where
  "suppliedTripId tripId tripData =
     (if \<not> strTruthy tripId \<and> strTruthy (tripDataId tripData)
      then tripDataId tripData else tripId)"

text \<open>
  Lines 72 to 85: the trip id to load. The result is \<open>None\<close> when AsyncStorage throws,
  and otherwise the value of \<^verbatim>\<open>currentTripId\<close> (itself possibly undefined).
\<close>

definition resolveTripId :: "string option \<Rightarrow> json \<Rightarrow> string option call" where
  "resolveTripId tripId tripData w =
     (let currentTripId = suppliedTripId tripId tripData
      in if strTruthy currentTripId then
           (case setItem ''selectedTripId'' (the currentTripId) w of
              (None, w') \<Rightarrow> (None, w')
            | (Some u, w') \<Rightarrow> (Some currentTripId, w'))
         else
           (case getItem ''selectedTripId'' w of
              (None, w') \<Rightarrow> (None, w')
            | (Some storedTripId, w') \<Rightarrow>
                (Some (if strTruthy storedTripId then storedTripId else currentTripId), w')))"

text \<open>
  Lines 93 to 115: cache first, then the backend. The boolean is True when a call threw.
\<close>

definition loadTrail :: "string option \<Rightarrow> world \<times> infoState \<Rightarrow> bool \<times> world \<times> infoState" where
  "loadTrail currentTripId ws =
     (case ws of (w, s) \<Rightarrow>
        if strTruthy currentTripId then
          (let i = the currentTripId in
           case getCachedTrailData i w of
             (None, w1) \<Rightarrow> (True, w1, s)
           | (Some cached, w1) \<Rightarrow>
               if truthy cached then
                 (False,
                  emit (ConsoleLog ''Trail data loaded from CACHE for InfoTab:'') w1,
                  s\<lparr>tripInfo := cached\<rparr>)
               else
                 (case tripsSelectById i w1 of
                    (Some (row # rest), w2) \<Rightarrow>
                      (let w3 = emit (ConsoleLog ''Trail data loaded from Supabase for InfoTab:'') w2;
                           s3 = s\<lparr>tripInfo := row\<rparr>
                       in case cacheTrailData i row w3 of
                            (None, w4) \<Rightarrow> (True, w4, s3)
                          | (Some u, w4) \<Rightarrow> (False, w4, s3))
                  | (d, w2) \<Rightarrow> (False, w2, s\<lparr>error := Some ''Trip not found.''\<rparr>)))
        else (False, w, s\<lparr>error := Some ''No trip ID available.''\<rparr>))"

text \<open>Lines 71 to 115: the body of the \<^verbatim>\<open>try\<close> block.\<close>

definition fetchTripInfoTry ::
  "string option \<Rightarrow> json \<Rightarrow> world \<times> infoState \<Rightarrow> bool \<times> world \<times> infoState" where
  "fetchTripInfoTry tripId tripData ws =
     (case ws of (w, s) \<Rightarrow>
        (case resolveTripId tripId tripData w of
           (None, w1) \<Rightarrow> (True, w1, s)
         | (Some currentTripId, w1) \<Rightarrow>
             if isArray (optProp tripData ''schedule'') then
               (False, w1, s\<lparr>tripInfo := tripData, loading := False\<rparr>)
             else loadTrail currentTripId (w1, s)))"

text \<open>
  The whole effect callback: \<^verbatim>\<open>setLoading(true)\<close>, the try block, the catch that
  logs and sets the generic message, and the \<^verbatim>\<open>finally\<close> that clears the flag.
\<close>

definition fetchTripInfo ::
  "string option \<Rightarrow> json \<Rightarrow> world \<times> infoState \<Rightarrow> world \<times> infoState" where
  "fetchTripInfo tripId tripData ws =
     (case ws of (w, s) \<Rightarrow>
        case fetchTripInfoTry tripId tripData (w, s\<lparr>loading := True\<rparr>) of
          (threw, w1, s1) \<Rightarrow>
            (if threw then
               (emit (ConsoleError ''Error loading trip info:'') w1,
                s1\<lparr>error := Some ''Failed to load trip info.'', loading := False\<rparr>)
             else (w1, s1\<lparr>loading := False\<rparr>)))"

subsection \<open>The runtime\<close>

text \<open>
  What the component takes from the JavaScript runtime and from hooks that are not part
  of the sources at hand: the API key read from the process environment, the
  \<^verbatim>\<open>convertTemperature\<close> function of \<^verbatim>\<open>useTemperatureUnit\<close>, the locale's
  rendering of a time of day (\<open>toLocaleTimeString rt v\<close> stands for
  \<^verbatim>\<open>new Date(v * 1000).toLocaleTimeString([], {hour: 'numeric', minute: '2-digit'})\<close>),
  ToNumber on strings, and the \<^verbatim>\<open>Date\<close> object (\<open>dateGetTime rt v\<close> stands for
  \<^verbatim>\<open>new Date(v).getTime()\<close>, which does not throw). A time
  value is a number of milliseconds since the epoch, or NaN (\<open>None\<close>) for an invalid
  date. The three \<^verbatim>\<open>Date\<close> operations that formatDateRange guards with a
  \<^verbatim>\<open>try\<close> may throw (\<open>None\<close>).
\<close>

type_synonym timeValue = "int option"

datatype dateFormat = MonthDayYear | MonthDay

record runtime =
  apiKey :: string
  convertTemperature :: "json \<Rightarrow> json"
  toLocaleTimeString :: "json \<Rightarrow> string"
  stringToNumber :: "string \<Rightarrow> int option"
  dateGetTime :: "json \<Rightarrow> timeValue"
  newDate :: "string \<Rightarrow> timeValue option"
  toDateString :: "timeValue \<Rightarrow> string option"
  toLocaleDateString :: "dateFormat \<Rightarrow> timeValue \<Rightarrow> string option"

subsection \<open>fetchWeather\<close>

text \<open>
  \<^verbatim>\<open>tripInfo?.coordinates.latitude\<close>: the optional chain guards \<open>tripInfo\<close> only;
  reading a property of an absent \<open>coordinates\<close> throws.
\<close>

definition coordinate :: "json \<Rightarrow> string \<Rightarrow> json option" where
  "coordinate info k =
     (if nullish info then Some JUndefined else getProp (field ''coordinates'' info) k)"

definition weatherDate :: "json \<Rightarrow> json" where
  "weatherDate info =
     (let d = optProp (field ''dateRange'' info) ''startDate''
      in if truthy d then d else JStr [])"

definition weatherCacheKey :: "json \<Rightarrow> json \<Rightarrow> json \<Rightarrow> string" where
  "weatherCacheKey lat lon date =
     toStringJS lat @ '','' @ toStringJS lon @ '','' @ toStringJS date"

definition weatherUrl :: "runtime \<Rightarrow> json \<Rightarrow> json \<Rightarrow> json \<Rightarrow> string" where
  "weatherUrl rt lat lon date =
     ''https://api.openweathermap.org/data/2.5/weather?lat='' @ toStringJS lat
       @ ''&lon='' @ toStringJS lon @ ''&date='' @ toStringJS date
       @ ''&appid='' @ apiKey rt @ ''&units=imperial''"

text \<open>\<^verbatim>\<open>v.slice(0, -1)\<close>: strings and arrays have the method, nothing else does.\<close>

fun sliceInit :: "json \<Rightarrow> json option" where
  "sliceInit (JStr s) = Some (JStr (butlast s))"
| "sliceInit (JArr xs) = Some (JArr (butlast xs))"
| "sliceInit v = None"

text \<open>\<^verbatim>\<open>`${t.value}${t.unit}`\<close> of a converted temperature.\<close>

definition temperatureText :: "runtime \<Rightarrow> json \<Rightarrow> string option" where
  "temperatureText rt v =
     (let t = convertTemperature rt v in
      do {
        value \<leftarrow> getProp t ''value'';
        unit \<leftarrow> getProp t ''unit'';
        Some (toStringJS value @ toStringJS unit)
      })"

text \<open>
  Lines 156 to 188: the view model computed from the payload, or \<open>None\<close> when any step
  throws.
\<close>

definition processWeather :: "runtime \<Rightarrow> json \<Rightarrow> weatherView option" where
  "processWeather rt data =
     do {
       weatherList \<leftarrow> getProp data ''weather'';
       w0 \<leftarrow> index0 weatherList;
       icon \<leftarrow> getProp w0 ''icon'';
       sliced \<leftarrow> sliceInit icon;
       sys \<leftarrow> getProp data ''sys'';
       sunriseRaw \<leftarrow> getProp sys ''sunrise'';
       sunsetRaw \<leftarrow> getProp sys ''sunset'';
       main \<leftarrow> getProp data ''main'';
       tempRaw \<leftarrow> getProp main ''temp'';
       temp \<leftarrow> temperatureText rt tempRaw;
       hi \<leftarrow> temperatureText rt (field ''temp_max'' main);
       lo \<leftarrow> temperatureText rt (field ''temp_min'' main);
       feels \<leftarrow> temperatureText rt (field ''feels_like'' main);
       description \<leftarrow> asString (field ''description'' w0);
       Some \<lparr>temperature = temp,
             status = joinWith '' '' (map capitalize (splitOn CHR '' '' description)),
             precipitation =
               (let r = optProp (field ''rain'' data) ''1h''
                in if truthy r then toStringJS r @ '' mm'' else ''0 mm''),
             high = hi,
             low = lo,
             feels_like = feels,
             humidity = toStringJS (field ''humidity'' main) @ ''%'',
             seaLevel =
               (let l = field ''sea_level'' main
                in if truthy l then toStringJS l @ '' Ft'' else ''N/A''),
             sunrise = toLocaleTimeString rt sunriseRaw,
             sunset = toLocaleTimeString rt sunsetRaw,
             iconUrl = ''https://openweathermap.org/img/wn/'' @ toStringJS sliced @ ''d''
                         @ ''@2x.png''\<rparr>
     }"

text \<open>Lines 155 to 191: process the payload; a failure is logged and nothing is set.\<close>

definition showWeather :: "runtime \<Rightarrow> json \<Rightarrow> world \<times> infoState \<Rightarrow> world \<times> infoState" where
  "showWeather rt data ws =
     (case ws of (w, s) \<Rightarrow>
        (case processWeather rt data of
           Some v \<Rightarrow> (w, s\<lparr>weather := Some v\<rparr>)
         | None \<Rightarrow> (emit (ConsoleError ''Failed to process weather data:'') w, s)))"

text \<open>
  The effect callback. It is an async function that nobody awaits: the boolean is True
  when it ends in an exception that no \<^verbatim>\<open>catch\<close> of its own handles (the
  coordinate reads of its first line, and the cache lookup).
\<close>

definition fetchWeather :: "runtime \<Rightarrow> world \<times> infoState \<Rightarrow> bool \<times> world \<times> infoState" where
  "fetchWeather rt ws =
     (case ws of (w, s) \<Rightarrow>
       (case coordinate (tripInfo s) ''latitude'' of
          None \<Rightarrow> (True, w, s)
        | Some lat \<Rightarrow>
            if \<not> truthy lat then (False, w, s)
            else
              (case coordinate (tripInfo s) ''longitude'' of
                 None \<Rightarrow> (True, w, s)
               | Some lon \<Rightarrow>
                   if \<not> truthy lon then (False, w, s)
                   else
                     (let date = weatherDate (tripInfo s);
                          cacheKey = weatherCacheKey lat lon date
                      in case getCachedWeatherData cacheKey w of
                           (None, w1) \<Rightarrow> (True, w1, s)
                         | (Some cached, w1) \<Rightarrow>
                             if truthy cached then
                               (case showWeather rt cached
                                       (emit (ConsoleLog ''-------Successfully fetched weather data from CACHE-------'') w1, s)
                                of (w2, s2) \<Rightarrow> (False, w2, s2))
                             else
                               (case fetchJson (weatherUrl rt lat lon date) w1 of
                                  (None, w2) \<Rightarrow>
                                    (False, emit (ConsoleError ''Failed to fetch weather:'') w2, s)
                                | (Some data, w2) \<Rightarrow>
                                    (case cacheWeatherData cacheKey data
                                            (emit (ConsoleLog ''-------Successfully fetched weather data from API-------'') w2)
                                     of (None, w3) \<Rightarrow>
                                          (False, emit (ConsoleError ''Failed to fetch weather:'') w3, s)
                                      | (Some u, w3) \<Rightarrow>
                                          (case showWeather rt data (w3, s)
                                           of (w4, s4) \<Rightarrow> (False, w4, s4))))))))"

subsection \<open>The view\<close>

definition getAmenityIcon :: "string \<Rightarrow> string" where
  "getAmenityIcon amenity =
     (let name = toLowerCase amenity in
      if includesStr name ''restroom'' \<or> includesStr name ''bathroom'' then ''transgender''
      else if includesStr name ''parking'' then ''car''
      else if includesStr name ''water'' then ''water''
      else if includesStr name ''picnic'' then ''restaurant''
      else if includesStr name ''camp'' then ''bonfire''
      else if includesStr name ''wifi'' then ''wifi''
      else if includesStr name ''view'' then ''eye''
      else if includesStr name ''pet'' \<or> includesStr name ''dog'' then ''paw''
      else if includesStr name ''cafe'' \<or> includesStr name ''coffee'' then ''cafe''
      else if includesStr name ''bike'' \<or> includesStr name ''biking'' then ''bicycle''
      else if includesStr name ''boat'' then ''boat''
      else ''trail-sign'')"

definition getHighlightIcon :: "string \<Rightarrow> string" where
  "getHighlightIcon highlight =
     (let name = toLowerCase highlight in
      if includesStr name ''view'' \<or> includesStr name ''scenic'' then ''eye''
      else if includesStr name ''water'' \<or> includesStr name ''lake'' \<or> includesStr name ''river''
        then ''water''
      else if includesStr name ''wildlife'' \<or> includesStr name ''animal'' \<or> includesStr name ''pet''
        then ''paw''
      else if includesStr name ''photo'' then ''camera''
      else if includesStr name ''forest'' \<or> includesStr name ''tree'' then ''leaf''
      else if includesStr name ''historic'' then ''time''
      else if includesStr name ''quiet'' then ''volume-mute''
      else if includesStr name ''wildflower'' \<or> includesStr name ''flower'' then ''flower''
      else if includesStr name ''moderate'' \<or> includesStr name ''difficult'' then ''footsteps''
      else if includesStr name ''easy'' then ''leaf''
      else if includesStr name ''difficult'' \<or> includesStr name ''extreme'' then ''warning''
      else if includesStr name ''hard'' then ''trending-up''
      else if includesStr name ''morning'' \<or> includesStr name ''sunset'' then ''sunny''
      else if includesStr name ''evening'' \<or> includesStr name ''night'' then ''moon''
      else if includesStr name ''snow'' then ''snow''
      else if includesStr name ''shade'' then ''umbrella''
      else if includesStr name ''challenge'' \<or> includesStr name ''challenging''
        then ''alert-circle''
      else if includesStr name ''bike'' \<or> includesStr name ''biking'' then ''bicycle''
      else ''star'')"

text \<open>
  renderAmenities and renderHighlights: "N/A" unless the field is a non-empty array;
  each element is lower-cased and capitalised as a string, which throws on anything
  else.
\<close>

datatype features = NotAvailable | IconGrid "(string \<times> string) list"

definition renderFeatures :: "(string \<Rightarrow> string) \<Rightarrow> json \<Rightarrow> features option" where
  "renderFeatures iconOf v =
     (case v of
        JArr (x # xs) \<Rightarrow>
          map_option IconGrid
            (those (map (\<lambda>a. map_option (\<lambda>s. (iconOf s, capitalize s)) (asString a)) (x # xs)))
      | _ \<Rightarrow> Some NotAvailable)"

text \<open>\<^verbatim>\<open>v.length\<close> of a value that is neither null nor undefined, and \<^verbatim>\<open>n > 0\<close>.\<close>

fun lengthOf :: "json \<Rightarrow> json" where
  "lengthOf (JStr s) = JNum (int (length s))"
| "lengthOf (JArr xs) = JNum (int (length xs))"
| "lengthOf v = field ''length'' v"

fun toNumber :: "runtime \<Rightarrow> json \<Rightarrow> int option" where
  "toNumber rt JUndefined = None"
| "toNumber rt JNull = Some 0"
| "toNumber rt (JBool b) = Some (if b then 1 else 0)"
| "toNumber rt (JNum n) = Some n"
| "toNumber rt (JStr s) = stringToNumber rt s"
| "toNumber rt (JArr xs) = stringToNumber rt (toStringJS (JArr xs))"
| "toNumber rt (JObj fs) = None"

definition positive :: "runtime \<Rightarrow> json \<Rightarrow> bool" where
  "positive rt v = (case toNumber rt v of None \<Rightarrow> False | Some n \<Rightarrow> 0 < n)"

text \<open>The advisories section: absent, one card per array element, or a single card.\<close>

definition renderWarnings :: "runtime \<Rightarrow> json \<Rightarrow> json list" where
  "renderWarnings rt v =
     (if truthy v \<and> positive rt (lengthOf v)
      then (case v of JArr xs \<Rightarrow> xs | _ \<Rightarrow> [v])
      else [])"

record tripView =
  nameText :: json
  locationText :: json
  descriptionText :: json
  cellServiceIcon :: string
  cellServiceText :: json
  tempText :: string
  weatherStatus :: string
  weatherFeelsLike :: string
  weatherIcon :: "string option"
  highText :: string
  lowText :: string
  humidityText :: string
  precipitationText :: string
  sunriseText :: string
  sunsetText :: string
  amenitiesView :: features
  highlightsView :: features
  warningsView :: "json list"

datatype screen = LoadingScreen | ErrorScreen string | TripScreen tripView | RenderThrows

text \<open>\<^verbatim>\<open>weather?.f ?? "--"\<close>\<close>

definition weatherField :: "weatherView option \<Rightarrow> (weatherView \<Rightarrow> string) \<Rightarrow> string" where
  "weatherField wv f = (case wv of None \<Rightarrow> ''--'' | Some v \<Rightarrow> f v)"

text \<open>
  What the component returns for a state (lines 249 to 555): the loading indicator, the
  error text, or the trip view; \<open>RenderThrows\<close> when evaluating the view throws.
\<close>

definition renderInfoTab :: "runtime \<Rightarrow> infoState \<Rightarrow> screen" where
  "renderInfoTab rt s =
     (if loading s then LoadingScreen
      else if strTruthy (error s) then ErrorScreen (the (error s))
      else if \<not> truthy (tripInfo s) then ErrorScreen ''No trip data available.''
      else
        (let info = tripInfo s; wv = weather s in
         case (asString (field ''cellService'' info),
               renderFeatures getAmenityIcon (field ''amenities'' info),
               renderFeatures getHighlightIcon (field ''highlights'' info)) of
           (Some cell, Some amenities, Some highlights) \<Rightarrow>
             TripScreen
               \<lparr>nameText = field ''name'' info,
                locationText = field ''location'' info,
                descriptionText = field ''description'' info,
                cellServiceIcon =
                  (if includesStr (toLowerCase cell) ''no'' then ''close-circle'' else ''cellular''),
                cellServiceText = field ''cellService'' info,
                tempText = weatherField wv temperature,
                weatherStatus = weatherField wv status,
                weatherFeelsLike = weatherField wv feels_like,
                weatherIcon =
                  (case wv of None \<Rightarrow> None
                   | Some v \<Rightarrow> if iconUrl v \<noteq> [] then Some (iconUrl v) else None),
                highText = weatherField wv high,
                lowText = weatherField wv low,
                humidityText = weatherField wv humidity,
                precipitationText = weatherField wv precipitation,
                sunriseText = weatherField wv sunrise,
                sunsetText = weatherField wv sunset,
                amenitiesView = amenities,
                highlightsView = highlights,
                warningsView = renderWarnings rt (field ''warnings'' info)\<rparr>
         | _ \<Rightarrow> RenderThrows))"

section \<open>Home\<close>


record homeState =
  plans :: "json list"
  trips :: "json list"
  tripDates :: json
  deletingItems :: "string set"

subsection \<open>Objects and arrays\<close>




subsection \<open>Array.prototype.sort\<close>





subsection \<open>fetchPlans\<close>






subsection \<open>fetchTrips\<close>









subsection \<open>handleDeletePlan\<close>

text \<open>
  Modelled from the spec: the delete functions of \<^verbatim>\<open>services/cacheService\<close>, which
  is not part of the sources at hand, remove the blob stored under the key.
\<close>

definition deleteCachedTrailData :: "json \<Rightarrow> unit call" where
  "deleteCachedTrailData tripId w =
     (if fails w (DeleteCachedTrailData tripId) then (None, emit (DeleteCachedTrailData tripId) w)
      else (Some (),
            emit (DeleteCachedTrailData tripId)
              (w\<lparr>trailCache := (trailCache w)(toStringJS tripId := None)\<rparr>)))"

definition deleteCachedChatMessages :: "json \<Rightarrow> unit call" where
  "deleteCachedChatMessages tripId w =
     (if fails w (DeleteCachedChatMessages tripId)
      then (None, emit (DeleteCachedChatMessages tripId) w)
      else (Some (),
            emit (DeleteCachedChatMessages tripId)
              (w\<lparr>chatCache := (chatCache w)(toStringJS tripId := None)\<rparr>)))"

text \<open>Lines 1574 to 1577: the loop over the plan's trip ids.\<close>

fun deleteCaches :: "json list \<Rightarrow> unit call" where
  "deleteCaches [] w = (Some (), w)"
| "deleteCaches (tripId # rest) w =
     (case deleteCachedTrailData tripId w of
        (None, w1) \<Rightarrow> (None, w1)
      | (Some u, w1) \<Rightarrow>
          (case deleteCachedChatMessages tripId w1 of
             (None, w2) \<Rightarrow> (None, w2)
           | (Some u', w2) \<Rightarrow> deleteCaches rest w2))"

text \<open>
  Lines 1565 to 1582: delete the plan's trips, their caches, and drop them from the
  local list. \<open>tripIds\<close> is an array column. Any other truthy value ends in the
  exception path here: a number, a boolean and a plain object are not iterable, so the
  request builder throws on them; what a string does depends on the version of the
  client library.
\<close>

definition deletePlanTrips :: "json \<Rightarrow> world \<times> homeState \<Rightarrow> bool \<times> world \<times> homeState" where
  "deletePlanTrips tripIds ws =
     (case ws of (w, h) \<Rightarrow>
       (case tripIds of
          JArr ids \<Rightarrow>
            (let w1 = emit (TripsDeleteIn ids) w in
             if fails w (TripsDeleteIn ids) then (True, w1, h)
             else
               (case deleteCaches ids
                       (w1\<lparr>tripsTable :=
                             filter (\<lambda>r. field ''trip_id'' r \<notin> set ids) (tripsTable w1)\<rparr>) of
                  (None, w2) \<Rightarrow> (True, w2, h)
                | (Some u, w2) \<Rightarrow>
                    (False, w2,
                     h\<lparr>trips :=
                         filter (\<lambda>t. (let i = field ''id'' t
                                      in if truthy i then i else JStr []) \<notin> set ids)
                           (trips h)\<rparr>)))
        | _ \<Rightarrow> (True, w, h)))"

text \<open>Lines 1555 to 1603: the \<^verbatim>\<open>try\<close> block.\<close>

definition deletePlanTry :: "string \<Rightarrow> world \<times> homeState \<Rightarrow> bool \<times> world \<times> homeState" where
  "deletePlanTry planId ws =
     (case ws of (w, h) \<Rightarrow>
        let w1 = emit (PlanSelectTripIds planId) w;
            rows = filter (\<lambda>r. field ''plan_id'' r = JStr planId) (plansTable w)
        in if fails w (PlanSelectTripIds planId) \<or> length rows \<noteq> 1 then (True, w1, h)
           else
             (let tripIds = field ''tripIds'' (hd rows) in
              case (if truthy tripIds then deletePlanTrips tripIds (w1, h) else (False, w1, h)) of
                (True, w2, h2) \<Rightarrow> (True, w2, h2)
              | (False, w2, h2) \<Rightarrow>
                  (let w3 = emit (PlanDelete planId) w2 in
                   if fails w (PlanDelete planId) then (True, w3, h2)
                   else
                     (False,
                      w3\<lparr>plansTable :=
                           filter (\<lambda>r. field ''plan_id'' r \<noteq> JStr planId) (plansTable w3)\<rparr>,
                      h2\<lparr>plans := filter (\<lambda>p. field ''id'' p \<noteq> JStr planId) (plans h2),
                         deletingItems := deletingItems h2 - {planId}\<rparr>))))"

text \<open>
  The callback that runs once the user has confirmed the deletion and the animation
  delay has passed (lines 1545 to 1614).
\<close>

definition handleDeletePlan :: "string \<Rightarrow> world \<times> homeState \<Rightarrow> world \<times> homeState" where
  "handleDeletePlan planId ws =
     (case ws of (w, h) \<Rightarrow>
        case deletePlanTry planId (w, h\<lparr>deletingItems := insert planId (deletingItems h)\<rparr>) of
          (threw, w1, h1) \<Rightarrow>
            (if threw then
               (emit (Alert ''Error'' ''Could not delete plan or its trips.'')
                  (emit (ConsoleError ''Error deleting plan and associated trips:'') w1),
                h1\<lparr>deletingItems := deletingItems h1 - {planId}\<rparr>)
             else (w1, h1)))"

subsection \<open>formatDateRange\<close>

text \<open>Lines 1939 to 1959: the \<^verbatim>\<open>try\<close> block; \<open>None\<close> when a Date operation throws.\<close>

definition formatDateRangeTry :: "runtime \<Rightarrow> string \<Rightarrow> string option \<Rightarrow> string option" where
  "formatDateRangeTry rt startDate endDate =
     do {
       start \<leftarrow> newDate rt startDate;
       endD \<leftarrow> (if strTruthy endDate then map_option Some (newDate rt (the endDate))
               else Some None);
       sameDay \<leftarrow>
         (case endD of
            None \<Rightarrow> Some True
          | Some e \<Rightarrow> do { a \<leftarrow> toDateString rt start; b \<leftarrow> toDateString rt e; Some (a = b) });
       if sameDay then toLocaleDateString rt MonthDayYear start
       else do {
         a \<leftarrow> toLocaleDateString rt MonthDay start;
         b \<leftarrow> toLocaleDateString rt MonthDayYear (the endD);
         Some (a @ '' - '' @ b)
       }
     }"

definition formatDateRange :: "runtime \<Rightarrow> string \<Rightarrow> string option \<Rightarrow> string" where
  "formatDateRange rt startDate endDate =
     (case formatDateRangeTry rt startDate endDate of None \<Rightarrow> startDate | Some r \<Rightarrow> r)"

section \<open>Runs and example environments\<close>

text \<open>The events a run from \<open>w\<close> to \<open>w'\<close> added to the trace.\<close>

definition issued :: "world \<Rightarrow> world \<Rightarrow> event list" where
  "issued w w' = drop (length (trace w)) (trace w')"

fun isHttpGet :: "event \<Rightarrow> bool" where
  "isHttpGet (HttpGet u) = True"
| "isHttpGet e = False"

text \<open>A device with nothing stored, an empty backend, no network and no failing call.\<close>

definition emptyWorld :: world where
  "emptyWorld =
     \<lparr>asyncStorage = Map.empty, trailCache = Map.empty, weatherCache = Map.empty,
      chatCache = Map.empty, tripsTable = [], plansTable = [], authUser = JNull,
      http = (\<lambda>u. None), fails = (\<lambda>e. False), trace = []\<rparr>"

subsection \<open>A runtime to evaluate examples with\<close>

text \<open>
  The UTC time zone and the en-US locale. Date strings are read in the ISO date-only
  form \<^verbatim>\<open>YYYY-MM-DD\<close> (midnight UTC, as ECMAScript defines); in this instance any
  other string is an invalid date. Days are counted in the proleptic Gregorian calendar.
\<close>

definition daysFromCivil :: "int \<Rightarrow> int \<Rightarrow> int \<Rightarrow> int" where
  "daysFromCivil y m d =
     (let y' = (if m \<le> 2 then y - 1 else y);
          era = y' div 400;
          yoe = y' - era * 400;
          mp = (m + 9) mod 12;
          doy = (153 * mp + 2) div 5 + d - 1;
          doe = yoe * 365 + yoe div 4 - yoe div 100 + doy
      in era * 146097 + doe - 719468)"

definition civilFromDays :: "int \<Rightarrow> int \<times> int \<times> int" where
  "civilFromDays z0 =
     (let z = z0 + 719468;
          era = z div 146097;
          doe = z - era * 146097;
          yoe = (doe - doe div 1460 + doe div 36524 - doe div 146096) div 365;
          doy = doe - (365 * yoe + yoe div 4 - yoe div 100);
          mp = (5 * doy + 2) div 153;
          d = doy - (153 * mp + 2) div 5 + 1;
          m = (if mp < 10 then mp + 3 else mp - 9)
      in ((if m \<le> 2 then yoe + era * 400 + 1 else yoe + era * 400), m, d))"

definition digitValue :: "char \<Rightarrow> int option" where
  "digitValue c =
     (let n = (of_char c :: nat) in if 48 \<le> n \<and> n \<le> 57 then Some (int n - 48) else None)"

fun decimalValue :: "int \<Rightarrow> string \<Rightarrow> int option" where
  "decimalValue acc [] = Some acc"
| "decimalValue acc (c # cs) =
     (case digitValue c of None \<Rightarrow> None | Some v \<Rightarrow> decimalValue (acc * 10 + v) cs)"

definition parseDecimal :: "string \<Rightarrow> int option" where
  "parseDecimal s = (if s = [] then None else decimalValue 0 s)"

definition isoDate :: "string \<Rightarrow> timeValue" where
  "isoDate s =
     (if length s = 10 \<and> s ! 4 = CHR ''-'' \<and> s ! 7 = CHR ''-'' then
        (case (parseDecimal (take 4 s), parseDecimal (take 2 (drop 5 s)),
               parseDecimal (drop 8 s)) of
           (Some y, Some m, Some d) \<Rightarrow>
             if 1 \<le> m \<and> m \<le> 12 \<and> 1 \<le> d \<and> civilFromDays (daysFromCivil y m d) = (y, m, d)
             then Some (daysFromCivil y m d * 86400000)
             else None
         | _ \<Rightarrow> None)
      else None)"

definition monthName :: "int \<Rightarrow> string" where
  "monthName m =
     [''Jan'', ''Feb'', ''Mar'', ''Apr'', ''May'', ''Jun'',
      ''Jul'', ''Aug'', ''Sep'', ''Oct'', ''Nov'', ''Dec''] ! nat ((m - 1) mod 12)"

definition weekdayName :: "int \<Rightarrow> string" where
  "weekdayName days =
     [''Sun'', ''Mon'', ''Tue'', ''Wed'', ''Thu'', ''Fri'', ''Sat''] ! nat ((days + 4) mod 7)"

definition pad2 :: "int \<Rightarrow> string" where
  "pad2 n = (if 0 \<le> n \<and> n < 10 then CHR ''0'' # showInt n else showInt n)"

definition utcDateString :: "timeValue \<Rightarrow> string" where
  "utcDateString t =
     (case t of
        None \<Rightarrow> ''Invalid Date''
      | Some ms \<Rightarrow>
          (case civilFromDays (ms div 86400000) of
             (y, m, d) \<Rightarrow>
               weekdayName (ms div 86400000) @ '' '' @ monthName m @ '' '' @ pad2 d
                 @ '' '' @ showInt y))"

definition utcLocaleDateString :: "dateFormat \<Rightarrow> timeValue \<Rightarrow> string" where
  "utcLocaleDateString f t =
     (case t of
        None \<Rightarrow> ''Invalid Date''
      | Some ms \<Rightarrow>
          (case civilFromDays (ms div 86400000) of
             (y, m, d) \<Rightarrow>
               (case f of
                  MonthDayYear \<Rightarrow> monthName m @ '' '' @ showInt d @ '', '' @ showInt y
                | MonthDay \<Rightarrow> monthName m @ '' '' @ showInt d)))"

definition utcTimeString :: "json \<Rightarrow> string" where
  "utcTimeString v =
     (case v of
        JNum secs \<Rightarrow>
          (let t = secs mod 86400; h = t div 3600; mi = (t mod 3600) div 60
           in showInt (if h mod 12 = 0 then 12 else h mod 12) @ '':'' @ pad2 mi
                @ (if h < 12 then '' AM'' else '' PM''))
      | _ \<Rightarrow> ''Invalid Date'')"

definition utcGetTime :: "json \<Rightarrow> timeValue" where
  "utcGetTime v = (case v of JStr s \<Rightarrow> isoDate s | JNum n \<Rightarrow> Some n | _ \<Rightarrow> None)"

definition utcRuntime :: runtime where
  "utcRuntime =
     \<lparr>apiKey = ''KEY'',
      convertTemperature = (\<lambda>v. JObj [(''value'', v), (''unit'', JStr ''F'')]),
      toLocaleTimeString = utcTimeString,
      stringToNumber = parseDecimal,
      dateGetTime = utcGetTime,
      newDate = (\<lambda>s. Some (isoDate s)),
      toDateString = (\<lambda>t. Some (utcDateString t)),
      toLocaleDateString = (\<lambda>f t. Some (utcLocaleDateString f t))\<rparr>"

text \<open>
  The calls whose failure is a rejected promise, that is an exception at the
  \<^verbatim>\<open>await\<close>: AsyncStorage and the cache service. A failed backend request
  resolves to an error value instead.
\<close>

fun rejects :: "event \<Rightarrow> bool" where
  "rejects (SetItem k v) = True"
| "rejects (GetItem k) = True"
| "rejects (GetCachedTrailData k) = True"
| "rejects (CacheTrailData k v) = True"
| "rejects (GetCachedWeatherData k) = True"
| "rejects (CacheWeatherData k v) = True"
| "rejects (DeleteCachedTrailData k) = True"
| "rejects (DeleteCachedChatMessages k) = True"
| "rejects e = False"

text \<open>A trip row, a device that has it cached, and a backend that holds it.\<close>

definition lakeTrip :: json where
  "lakeTrip =
     JObj [(''trip_id'', JStr ''t1''), (''name'', JStr ''Lake Loop''),
           (''cellService'', JStr ''No service''),
           (''coordinates'', JObj [(''latitude'', JNum 47), (''longitude'', JNum 8)]),
           (''dateRange'', JObj [(''startDate'', JStr ''2025-06-01'')])]"



text \<open>What the cache holds for a trip, and the rows the backend holds for it.\<close>

definition cachedTrail :: "world \<Rightarrow> string \<Rightarrow> json" where
  "cachedTrail w i = (case trailCache w i of None \<Rightarrow> JNull | Some v \<Rightarrow> v)"

definition tripRows :: "world \<Rightarrow> string \<Rightarrow> json list" where
  "tripRows w i = filter (\<lambda>r. field ''trip_id'' r = JStr i) (tripsTable w)"

text \<open>A trip handed over with its schedule and no id, and a device whose storage rejects a write.\<close>

definition scheduledTrip :: json where
  "scheduledTrip =
     JObj [(''name'', JStr ''Ridge Walk''), (''cellService'', JStr ''Good''),
           (''schedule'', JArr [])]"

definition storageDownWorld :: world where
  "storageDownWorld = emptyWorld\<lparr>fails := (\<lambda>e. e = SetItem ''selectedTripId'' ''t1'')\<rparr>"


text \<open>A weather response, an error response of the provider, and worlds that serve them.\<close>

definition weatherPayload :: json where
  "weatherPayload =
     JObj [(''weather'', JArr [JObj [(''icon'', JStr ''10n''),
                                     (''description'', JStr ''light rain'')]]),
           (''sys'', JObj [(''sunrise'', JNum 1748757900), (''sunset'', JNum 1748800000)]),
           (''main'', JObj [(''temp'', JNum 71), (''temp_max'', JNum 75),
                            (''temp_min'', JNum 60), (''feels_like'', JNum 70),
                            (''humidity'', JNum 40)])]"

definition apiErrorPayload :: json where
  "apiErrorPayload = JObj [(''cod'', JNum 401), (''message'', JStr ''Invalid API key.'')]"

definition lakeUrl :: string where
  "lakeUrl = weatherUrl utcRuntime (JNum 47) (JNum 8) (JStr ''2025-06-01'')"

definition onlineWorld :: world where
  "onlineWorld = emptyWorld\<lparr>http := (\<lambda>u. if u = lakeUrl then Some weatherPayload else None)\<rparr>"

definition badKeyWorld :: world where
  "badKeyWorld = emptyWorld\<lparr>http := (\<lambda>u. if u = lakeUrl then Some apiErrorPayload else None)\<rparr>"

definition lakeState :: infoState where
  "lakeState = initialInfoState\<lparr>tripInfo := lakeTrip, loading := False\<rparr>"

definition lakeView :: tripView where
  "lakeView =
     \<lparr>nameText = JStr ''Lake Loop'', locationText = JUndefined, descriptionText = JUndefined,
      cellServiceIcon = ''close-circle'', cellServiceText = JStr ''No service'',
      tempText = ''--'', weatherStatus = ''--'', weatherFeelsLike = ''--'',
      weatherIcon = None, highText = ''--'', lowText = ''--'', humidityText = ''--'',
      precipitationText = ''--'', sunriseText = ''--'', sunsetText = ''--'',
      amenitiesView = NotAvailable, highlightsView = NotAvailable, warningsView = []\<rparr>"

text \<open>What a weather lookup returns, and what processing a payload logs and sets.\<close>

definition cachedWeather :: "world \<Rightarrow> string \<Rightarrow> json" where
  "cachedWeather w k = (case weatherCache w k of None \<Rightarrow> JNull | Some v \<Rightarrow> v)"

definition processLog :: "runtime \<Rightarrow> json \<Rightarrow> event list" where
  "processLog rt data =
     (case processWeather rt data of
        None \<Rightarrow> [ConsoleError ''Failed to process weather data:'']
      | Some v \<Rightarrow> [])"

definition processState :: "runtime \<Rightarrow> json \<Rightarrow> infoState \<Rightarrow> infoState" where
  "processState rt data s =
     (case processWeather rt data of None \<Rightarrow> s | Some v \<Rightarrow> s\<lparr>weather := Some v\<rparr>)"

text \<open>Two more trips, a plan over two trips, and a backend that refuses to delete the plan.\<close>

definition forestTrip :: json where
  "forestTrip = JObj [(''trip_id'', JStr ''t2''), (''name'', JStr ''Forest Trail'')]"

definition coastTrip :: json where
  "coastTrip = JObj [(''trip_id'', JStr ''t3''), (''name'', JStr ''Coast Path'')]"

definition alpsPlan :: json where
  "alpsPlan =
     JObj [(''plan_id'', JStr ''p1''), (''userId'', JStr ''u1''),
           (''tripIds'', JArr [JStr ''t1'', JStr ''t2'']),
           (''preferences'', JObj [(''dateRange'', JObj [(''startDate'', JStr ''2025-06-01'')])])]"

definition planDeleteDownWorld :: world where
  "planDeleteDownWorld =
     emptyWorld\<lparr>tripsTable := [lakeTrip, forestTrip, coastTrip], plansTable := [alpsPlan],
                fails := (\<lambda>e. e = PlanDelete ''p1'')\<rparr>"

definition emptyHome :: homeState where
  "emptyHome = \<lparr>plans = [], trips = [], tripDates = JObj [], deletingItems = {}\<rparr>"

text \<open>The cache deletions of the loop over a plan's trip ids, and the rows of a plan.\<close>

definition cacheDeletes :: "json list \<Rightarrow> event list" where
  "cacheDeletes ids =
     concat (map (\<lambda>t. [DeleteCachedTrailData t, DeleteCachedChatMessages t]) ids)"

definition planRows :: "world \<Rightarrow> string \<Rightarrow> json list" where
  "planRows w planId = filter (\<lambda>r. field ''plan_id'' r = JStr planId) (plansTable w)"










text \<open>A trip row without cell-service information and without coordinates, loaded into the tab.\<close>

definition ridgeTrip :: json where
  "ridgeTrip =
     JObj [(''trip_id'', JStr ''t4''), (''name'', JStr ''Ridge Walk''),
           (''location'', JStr ''Alps''), (''amenities'', JArr [JStr ''parking''])]"

definition ridgeState :: infoState where
  "ridgeState = \<lparr>tripInfo = ridgeTrip, loading = False, error = None, weather = None\<rparr>"

text \<open>
  Whether one of the Date operations that formatDateRange performs on its arguments
  throws: the construction of the start date, the construction of the end date when
  one is given, the two \<^verbatim>\<open>toDateString\<close> calls of the comparison, and the
  \<^verbatim>\<open>toLocaleDateString\<close> calls of the branch taken.
\<close>

definition dateOperationThrows :: "runtime \<Rightarrow> string \<Rightarrow> string option \<Rightarrow> bool" where
  "dateOperationThrows rt startDate endDate =
     (case newDate rt startDate of
        None \<Rightarrow> True
      | Some start \<Rightarrow>
          if strTruthy endDate then
            (case newDate rt (the endDate) of
               None \<Rightarrow> True
             | Some e \<Rightarrow>
                 toDateString rt start = None \<or> toDateString rt e = None
                 \<or> (if toDateString rt start = toDateString rt e
                     then toLocaleDateString rt MonthDayYear start = None
                     else toLocaleDateString rt MonthDay start = None
                          \<or> toLocaleDateString rt MonthDayYear e = None))
          else toLocaleDateString rt MonthDayYear start = None)"

text \<open>A runtime whose Date constructor throws.\<close>

definition brokenDateRuntime :: runtime where
  "brokenDateRuntime = utcRuntime\<lparr>newDate := (\<lambda>s. None)\<rparr>"


text \<open>
  A second trip, a device that has it cached and reaches the weather provider for the
  first trip only, and the tab after it has shown the first trip with its weather and
  has then loaded the second trip.
\<close>

definition hillTrip :: json where
  "hillTrip =
     JObj [(''trip_id'', JStr ''t5''), (''name'', JStr ''Hill Path''),
           (''cellService'', JStr ''Good''),
           (''coordinates'', JObj [(''latitude'', JNum 46), (''longitude'', JNum 9)]),
           (''dateRange'', JObj [(''startDate'', JStr ''2025-06-02'')])]"

definition hillUrl :: string where
  "hillUrl = weatherUrl utcRuntime (JNum 46) (JNum 9) (JStr ''2025-06-02'')"

definition hillWorld :: world where
  "hillWorld = onlineWorld\<lparr>trailCache := [''t5'' \<mapsto> hillTrip]\<rparr>"

definition lakeThenHill :: "world \<times> infoState" where
  "lakeThenHill =
     fetchTripInfo (Some ''t5'') JUndefined (snd (fetchWeather utcRuntime (hillWorld, lakeState)))"

text \<open>
  The weather of the first trip as the tab shows it, and the view of the second trip
  with that weather.
\<close>

definition lakeWeather :: weatherView where
  "lakeWeather =
     \<lparr>temperature = ''71F'', status = ''Light Rain'', precipitation = ''0 mm'',
      high = ''75F'', low = ''60F'', feels_like = ''70F'', humidity = ''40%'',
      seaLevel = ''N/A'', sunrise = ''6:05 AM'', sunset = ''5:46 PM'',
      iconUrl = ''https://openweathermap.org/img/wn/10d@2x.png''\<rparr>"

definition hillView :: tripView where
  "hillView =
     \<lparr>nameText = JStr ''Hill Path'', locationText = JUndefined, descriptionText = JUndefined,
      cellServiceIcon = ''cellular'', cellServiceText = JStr ''Good'',
      tempText = ''71F'', weatherStatus = ''Light Rain'', weatherFeelsLike = ''70F'',
      weatherIcon = Some ''https://openweathermap.org/img/wn/10d@2x.png'',
      highText = ''75F'', lowText = ''60F'', humidityText = ''40%'',
      precipitationText = ''0 mm'', sunriseText = ''6:05 AM'', sunsetText = ''5:46 PM'',
      amenitiesView = NotAvailable, highlightsView = NotAvailable, warningsView = []\<rparr>"

section \<open>Properties of fetchTripInfo\<close>

text \<open>The three phases of the callback, each as a table of its outcomes.\<close>

lemma resolveTripId_cases:
  "resolveTripId tripId tripData w =
     (let cur = suppliedTripId tripId tripData
      in if strTruthy cur then
           (if fails w (SetItem ''selectedTripId'' (the cur))
            then (None, w\<lparr>trace := trace w @ [SetItem ''selectedTripId'' (the cur)]\<rparr>)
            else (Some cur,
                  w\<lparr>asyncStorage := (asyncStorage w)(''selectedTripId'' \<mapsto> the cur),
                    trace := trace w @ [SetItem ''selectedTripId'' (the cur)]\<rparr>))
         else
           (if fails w (GetItem ''selectedTripId'')
            then (None, w\<lparr>trace := trace w @ [GetItem ''selectedTripId'']\<rparr>)
            else (Some (if strTruthy (asyncStorage w ''selectedTripId'')
                        then asyncStorage w ''selectedTripId'' else cur),
                  w\<lparr>trace := trace w @ [GetItem ''selectedTripId'']\<rparr>)))"
  by (simp add: resolveTripId_def setItem_def getItem_def emit_def Let_def)

lemma loadTrail_cases:
  "loadTrail cur (w, s) =
     (if \<not> strTruthy cur then (False, w, s\<lparr>error := Some ''No trip ID available.''\<rparr>)
      else if fails w (GetCachedTrailData (the cur))
        then (True, w\<lparr>trace := trace w @ [GetCachedTrailData (the cur)]\<rparr>, s)
      else if truthy (cachedTrail w (the cur))
        then (False,
              w\<lparr>trace := trace w @ [GetCachedTrailData (the cur),
                                     ConsoleLog ''Trail data loaded from CACHE for InfoTab:'']\<rparr>,
              s\<lparr>tripInfo := cachedTrail w (the cur)\<rparr>)
      else if fails w (TripsSelectById (the cur)) \<or> tripRows w (the cur) = []
        then (False,
              w\<lparr>trace := trace w @ [GetCachedTrailData (the cur), TripsSelectById (the cur)]\<rparr>,
              s\<lparr>error := Some ''Trip not found.''\<rparr>)
      else if fails w (CacheTrailData (the cur) (hd (tripRows w (the cur))))
        then (True,
              w\<lparr>trace := trace w @ [GetCachedTrailData (the cur), TripsSelectById (the cur),
                     ConsoleLog ''Trail data loaded from Supabase for InfoTab:'',
                     CacheTrailData (the cur) (hd (tripRows w (the cur)))]\<rparr>,
              s\<lparr>tripInfo := hd (tripRows w (the cur))\<rparr>)
      else (False,
            w\<lparr>trailCache := (trailCache w)(the cur \<mapsto> hd (tripRows w (the cur))),
              trace := trace w @ [GetCachedTrailData (the cur), TripsSelectById (the cur),
                     ConsoleLog ''Trail data loaded from Supabase for InfoTab:'',
                     CacheTrailData (the cur) (hd (tripRows w (the cur)))]\<rparr>,
            s\<lparr>tripInfo := hd (tripRows w (the cur))\<rparr>))"
  by (simp add: loadTrail_def getCachedTrailData_def tripsSelectById_def cacheTrailData_def
      emit_def Let_def cachedTrail_def tripRows_def split: list.split)


lemma fetchTripInfo_run:
  assumes "fetchTripInfo tripId tripData (w, s) = (w', s')"
  obtains
    (Threw) w1 where "resolveTripId tripId tripData w = (None, w1)"
      and "trace w' = trace w1 @ [ConsoleError ''Error loading trip info:'']"
      and "trailCache w' = trailCache w1" and "asyncStorage w' = asyncStorage w1"
      and "s' = s\<lparr>loading := False, error := Some ''Failed to load trip info.''\<rparr>"
  | (Schedule) cur where "resolveTripId tripId tripData w = (Some cur, w')"
      and "isArray (optProp tripData ''schedule'')"
      and "s' = s\<lparr>tripInfo := tripData, loading := False\<rparr>"
  | (Load) cur w1 threw w2 s2 where "resolveTripId tripId tripData w = (Some cur, w1)"
      and "\<not> isArray (optProp tripData ''schedule'')"
      and "loadTrail cur (w1, s\<lparr>loading := True\<rparr>) = (threw, w2, s2)"
      and "trace w' = trace w2 @ (if threw then [ConsoleError ''Error loading trip info:''] else [])"
      and "trailCache w' = trailCache w2" and "asyncStorage w' = asyncStorage w2"
      and "s' = (if threw then s2\<lparr>error := Some ''Failed to load trip info.'', loading := False\<rparr>
                 else s2\<lparr>loading := False\<rparr>)"
proof (cases "resolveTripId tripId tripData w")
  case (Pair r w1)
  show ?thesis
  proof (cases r)
    case None
    with Pair assms show ?thesis
      by (intro Threw[of w1]) (auto simp: fetchTripInfo_def fetchTripInfoTry_def emit_def)
  next
    case (Some cur)
    show ?thesis
    proof (cases "isArray (optProp tripData ''schedule'')")
      case True
      with Pair Some assms show ?thesis
        by (intro Schedule[of cur]) (auto simp: fetchTripInfo_def fetchTripInfoTry_def)
    next
      case False
      obtain threw w2 s2 where lt: "loadTrail cur (w1, s\<lparr>loading := True\<rparr>) = (threw, w2, s2)"
        by (cases "loadTrail cur (w1, s\<lparr>loading := True\<rparr>)") auto
      with Pair Some False assms show ?thesis
        by (intro Load[of cur w1 threw w2 s2])
           (auto simp: fetchTripInfo_def fetchTripInfoTry_def emit_def split: if_splits)
    qed
  qed
qed






lemma resolveTripId_event:
  "resolveTripId tripId tripData w = (r, w1) \<Longrightarrow>
     fails w1 = fails w \<and> tripsTable w1 = tripsTable w \<and>
     (\<exists>e. trace w1 = trace w @ [e] \<and> rejects e \<and> (fails w e \<longleftrightarrow> r = None))"
  by (auto simp: resolveTripId_cases Let_def split: if_splits)

lemma loadTrail_errors:
  assumes "loadTrail cur (w1, s1) = (threw, w2, s2)"
  shows "\<exists>evs. trace w2 = trace w1 @ evs
    \<and> (threw \<longleftrightarrow> (\<exists>e\<in>set evs. rejects e \<and> fails w1 e))
    \<and> (TripsSelectById i \<in> set evs \<and> (fails w1 (TripsSelectById i) \<or> tripRows w1 i = [])
         \<longrightarrow> \<not> threw \<and> error s2 = Some ''Trip not found.'')
    \<and> (\<not> strTruthy cur \<longrightarrow> \<not> threw \<and> error s2 = Some ''No trip ID available.'')"
  using assms
  by (auto simp: loadTrail_cases split: if_splits)

lemma render_error:
  "\<not> loading s \<Longrightarrow> error s = Some m \<Longrightarrow> m \<noteq> [] \<Longrightarrow> renderInfoTab rt s = ErrorScreen m"
  by (simp add: renderInfoTab_def strTruthy_def)

text \<open>
  Claim C5, as stated: every failure of the load ends in exactly one generic message,
  and "No trip ID available." is the message whenever no trip id can be determined. The
  code shows no message in one such case: a \<open>tripData\<close> that carries a schedule array is
  displayed as it is, before the id is looked at (lines 87 to 91). Below, no id is
  supplied and none is stored, and the run ends without an error.
\<close>

theorem fetchTripInfo_no_id_counterexample:
  "suppliedTripId None scheduledTrip = None
   \<and> asyncStorage emptyWorld ''selectedTripId'' = None
   \<and> fst (resolveTripId None scheduledTrip emptyWorld) = Some None
   \<and> issued emptyWorld (fst (fetchTripInfo None scheduledTrip (emptyWorld, initialInfoState)))
       = [GetItem ''selectedTripId'']
   \<and> snd (fetchTripInfo None scheduledTrip (emptyWorld, initialInfoState))
       = \<lparr>tripInfo = scheduledTrip, loading = False, error = None, weather = None\<rparr>
   \<and> renderInfoTab utcRuntime
        (snd (fetchTripInfo None scheduledTrip (emptyWorld, initialInfoState)))
       \<noteq> ErrorScreen ''No trip ID available.''"
  by code_simp

text \<open>
  Claim C5, amended. Every run of fetchTripInfo clears the loading flag. An exception
  in the try block (a rejected AsyncStorage or cache call) is caught and logged, and
  the message is "Failed to load trip info."; a query to the backend that returns no
  row gives "Trip not found."; no id from the caller and none in storage gives
  "No trip ID available.", unless \<open>tripData\<close> carries a schedule array. In each of these
  cases the view is the error screen with that message.
\<close>

theorem fetchTripInfo_error_messages:
  assumes run: "fetchTripInfo tripId tripData (w, s) = (w', s')"
  shows
  "\<not> loading s'
   \<and> ((\<exists>e\<in>set (issued w w'). rejects e \<and> fails w e)
        \<longrightarrow> error s' = Some ''Failed to load trip info.''
            \<and> (\<exists>evs. issued w w' = evs @ [ConsoleError ''Error loading trip info:''])
            \<and> renderInfoTab rt s' = ErrorScreen ''Failed to load trip info.'')
   \<and> (TripsSelectById i \<in> set (issued w w') \<and> (fails w (TripsSelectById i) \<or> tripRows w i = [])
        \<longrightarrow> error s' = Some ''Trip not found.''
            \<and> renderInfoTab rt s' = ErrorScreen ''Trip not found.'')
   \<and> (\<not> strTruthy (suppliedTripId tripId tripData) \<and> \<not> fails w (GetItem ''selectedTripId'')
        \<and> \<not> strTruthy (asyncStorage w ''selectedTripId'')
        \<and> \<not> isArray (optProp tripData ''schedule'')
        \<longrightarrow> error s' = Some ''No trip ID available.''
            \<and> renderInfoTab rt s' = ErrorScreen ''No trip ID available.'')"
proof (rule fetchTripInfo_run[OF run], goal_cases)
  case (1 w1)
  from resolveTripId_event[OF 1(1)] obtain e where
    e: "trace w1 = trace w @ [e]" "rejects e" "fails w e" by blast
  have iss: "issued w w' = [e, ConsoleError ''Error loading trip info:'']"
    using e(1) 1(2) by (simp add: issued_def)
  have r: "resolveTripId tripId tripData w \<noteq> (None, w1)"
    if "\<not> strTruthy (suppliedTripId tripId tripData)" "\<not> fails w (GetItem ''selectedTripId'')"
    using that by (simp add: resolveTripId_cases Let_def)
  have nq: "TripsSelectById i \<notin> set (issued w w')" using e(2) by (auto simp: iss)
  have s': "\<not> loading s'" "error s' = Some ''Failed to load trip info.''"
    using 1(5) by simp_all
  from render_error[OF s'] have "renderInfoTab rt s' = ErrorScreen ''Failed to load trip info.''"
    by simp
  with s' nq r 1(1) iss show ?case by auto
next
  case (2 cur)
  from resolveTripId_event[OF 2(1)] obtain e where
    e: "trace w' = trace w @ [e]" "rejects e" "\<not> fails w e" by auto
  have iss: "issued w w' = [e]" using e(1) by (simp add: issued_def)
  have nq: "TripsSelectById i \<notin> set (issued w w')" using e(2) by (auto simp: iss)
  from 2(2,3) e(3) nq show ?case by (auto simp: iss)
next
  case (3 cur w1 threw w2 s2)
  from resolveTripId_event[OF 3(1)] obtain e where
    fr: "fails w1 = fails w" "tripsTable w1 = tripsTable w"
    and e: "trace w1 = trace w @ [e]" "rejects e" "\<not> fails w e" by auto
  have rows: "tripRows w1 i = tripRows w i" by (simp add: tripRows_def fr)
  from loadTrail_errors[OF 3(3), of i] obtain evs where
    evs: "trace w2 = trace w1 @ evs"
    and thr: "threw \<longleftrightarrow> (\<exists>e\<in>set evs. rejects e \<and> fails w1 e)"
    and nf: "TripsSelectById i \<in> set evs \<and> (fails w1 (TripsSelectById i) \<or> tripRows w1 i = [])
         \<longrightarrow> \<not> threw \<and> error s2 = Some ''Trip not found.''"
    and ni: "\<not> strTruthy cur \<longrightarrow> \<not> threw \<and> error s2 = Some ''No trip ID available.''"
    by blast
  have iss: "issued w w'
      = e # evs @ (if threw then [ConsoleError ''Error loading trip info:''] else [])"
    using e(1) evs 3(4) by (simp add: issued_def)
  have l: "\<not> loading s'" using 3(7) by simp
  have a: "error s' = Some ''Failed to load trip info.''
            \<and> (\<exists>evs. issued w w' = evs @ [ConsoleError ''Error loading trip info:''])
            \<and> renderInfoTab rt s' = ErrorScreen ''Failed to load trip info.''"
    if "\<exists>e\<in>set (issued w w'). rejects e \<and> fails w e"
  proof -
    from that e(3) thr fr have threw by (auto simp: iss split: if_splits)
    with 3(7) have er: "error s' = Some ''Failed to load trip info.''" by simp
    from \<open>threw\<close> have "issued w w' = (e # evs) @ [ConsoleError ''Error loading trip info:'']"
      by (simp add: iss)
    with er render_error[OF l er] show ?thesis by blast
  qed
  have b: "error s' = Some ''Trip not found.''
            \<and> renderInfoTab rt s' = ErrorScreen ''Trip not found.''"
    if "TripsSelectById i \<in> set (issued w w') \<and> (fails w (TripsSelectById i) \<or> tripRows w i = [])"
  proof -
    from that e(2) have "TripsSelectById i \<in> set evs" by (auto simp: iss split: if_splits)
    with that nf fr rows have "\<not> threw" "error s2 = Some ''Trip not found.''" by auto
    with 3(7) have er: "error s' = Some ''Trip not found.''" by simp
    with render_error[OF l er] show ?thesis by simp
  qed
  have c: "error s' = Some ''No trip ID available.''
            \<and> renderInfoTab rt s' = ErrorScreen ''No trip ID available.''"
    if "\<not> strTruthy (suppliedTripId tripId tripData) \<and> \<not> fails w (GetItem ''selectedTripId'')
        \<and> \<not> strTruthy (asyncStorage w ''selectedTripId'')
        \<and> \<not> isArray (optProp tripData ''schedule'')"
  proof -
    from that 3(1) have "\<not> strTruthy cur" by (auto simp: resolveTripId_cases Let_def)
    with ni have "\<not> threw" "error s2 = Some ''No trip ID available.''" by auto
    with 3(7) have er: "error s' = Some ''No trip ID available.''" by simp
    with render_error[OF l er] show ?thesis by simp
  qed
  from l a b c show ?case by blast
qed

text \<open>
  The theorem at a device whose storage write fails, at a backend without the trip, and
  at a caller without an id.
\<close>

theorem fetchTripInfo_error_messages_witness:
  "SetItem ''selectedTripId'' ''t1''
     \<in> set (issued storageDownWorld
              (fst (fetchTripInfo (Some ''t1'') JUndefined (storageDownWorld, initialInfoState))))
   \<and> rejects (SetItem ''selectedTripId'' ''t1'')
   \<and> fails storageDownWorld (SetItem ''selectedTripId'' ''t1'')
   \<and> renderInfoTab utcRuntime
        (snd (fetchTripInfo (Some ''t1'') JUndefined (storageDownWorld, initialInfoState)))
       = ErrorScreen ''Failed to load trip info.''
   \<and> TripsSelectById ''t1''
       \<in> set (issued emptyWorld
                (fst (fetchTripInfo (Some ''t1'') JUndefined (emptyWorld, initialInfoState))))
   \<and> tripRows emptyWorld ''t1'' = []
   \<and> renderInfoTab utcRuntime
        (snd (fetchTripInfo (Some ''t1'') JUndefined (emptyWorld, initialInfoState)))
       = ErrorScreen ''Trip not found.''
   \<and> \<not> strTruthy (suppliedTripId None JUndefined)
   \<and> \<not> fails emptyWorld (GetItem ''selectedTripId'')
   \<and> \<not> strTruthy (asyncStorage emptyWorld ''selectedTripId'')
   \<and> \<not> isArray (optProp JUndefined ''schedule'')
   \<and> renderInfoTab utcRuntime
        (snd (fetchTripInfo None JUndefined (emptyWorld, initialInfoState)))
       = ErrorScreen ''No trip ID available.''
   \<and> \<not> loading (snd (fetchTripInfo None JUndefined (emptyWorld, initialInfoState)))"
proof -
  let ?down = "fetchTripInfo (Some ''t1'') JUndefined (storageDownWorld, initialInfoState)"
  let ?none = "fetchTripInfo (Some ''t1'') JUndefined (emptyWorld, initialInfoState)"
  let ?noid = "fetchTripInfo None JUndefined (emptyWorld, initialInfoState)"
  have d: "SetItem ''selectedTripId'' ''t1'' \<in> set (issued storageDownWorld (fst ?down))"
    "rejects (SetItem ''selectedTripId'' ''t1'')"
    "fails storageDownWorld (SetItem ''selectedTripId'' ''t1'')"
    by code_simp+
  have n: "TripsSelectById ''t1'' \<in> set (issued emptyWorld (fst ?none))"
    "tripRows emptyWorld ''t1'' = []"
    by code_simp+
  have i: "\<not> strTruthy (suppliedTripId None JUndefined)"
    "\<not> fails emptyWorld (GetItem ''selectedTripId'')"
    "\<not> strTruthy (asyncStorage emptyWorld ''selectedTripId'')"
    "\<not> isArray (optProp JUndefined ''schedule'')"
    by code_simp+
  note down = fetchTripInfo_error_messages[OF prod.collapse[symmetric, of ?down],
      of utcRuntime "''t1''"]
  note none = fetchTripInfo_error_messages[OF prod.collapse[symmetric, of ?none],
      of utcRuntime "''t1''"]
  note noid = fetchTripInfo_error_messages[OF prod.collapse[symmetric, of ?noid],
      of utcRuntime "''t1''"]
  from down d have a: "renderInfoTab utcRuntime (snd ?down) = ErrorScreen ''Failed to load trip info.''"
    by blast
  from none n have b: "renderInfoTab utcRuntime (snd ?none) = ErrorScreen ''Trip not found.''"
    by blast
  from noid i have c: "renderInfoTab utcRuntime (snd ?noid) = ErrorScreen ''No trip ID available.''"
    "\<not> loading (snd ?noid)"
    by blast+
  from d n i a b c show ?thesis by blast
qed




section \<open>Properties of fetchWeather\<close>

lemma showWeather_cases:
  "showWeather rt data (w, s)
     = (w\<lparr>trace := trace w @ processLog rt data\<rparr>, processState rt data s)"
  by (simp add: showWeather_def processLog_def processState_def emit_def split: option.split)

lemma fetchWeather_cases:
  assumes "coordinate (tripInfo s) ''latitude'' = Some lat" "truthy lat"
    and "coordinate (tripInfo s) ''longitude'' = Some lon" "truthy lon"
    and "key = weatherCacheKey lat lon (weatherDate (tripInfo s))"
    and "url = weatherUrl rt lat lon (weatherDate (tripInfo s))"
  shows "fetchWeather rt (w, s) =
     (if fails w (GetCachedWeatherData key)
        then (True, w\<lparr>trace := trace w @ [GetCachedWeatherData key]\<rparr>, s)
      else if truthy (cachedWeather w key)
        then (False,
              w\<lparr>trace := trace w @ [GetCachedWeatherData key,
                  ConsoleLog ''-------Successfully fetched weather data from CACHE-------'']
                  @ processLog rt (cachedWeather w key)\<rparr>,
              processState rt (cachedWeather w key) s)
      else if http w url = None
        then (False,
              w\<lparr>trace := trace w @ [GetCachedWeatherData key, HttpGet url,
                  ConsoleError ''Failed to fetch weather:'']\<rparr>, s)
      else if fails w (CacheWeatherData key (the (http w url)))
        then (False,
              w\<lparr>trace := trace w @ [GetCachedWeatherData key, HttpGet url,
                  ConsoleLog ''-------Successfully fetched weather data from API-------'',
                  CacheWeatherData key (the (http w url)),
                  ConsoleError ''Failed to fetch weather:'']\<rparr>, s)
      else (False,
            w\<lparr>weatherCache := (weatherCache w)(key \<mapsto> the (http w url)),
              trace := trace w @ [GetCachedWeatherData key, HttpGet url,
                  ConsoleLog ''-------Successfully fetched weather data from API-------'',
                  CacheWeatherData key (the (http w url))]
                  @ processLog rt (the (http w url))\<rparr>,
            processState rt (the (http w url)) s))"
  using assms
  by (auto simp: fetchWeather_def getCachedWeatherData_def fetchJson_def cacheWeatherData_def
      showWeather_cases emit_def Let_def cachedWeather_def)

lemma fetchWeather_run:
  assumes run: "fetchWeather rt (w, s) = (threw, w', s')"
    and c: "coordinate (tripInfo s) ''latitude'' = Some lat" "truthy lat"
      "coordinate (tripInfo s) ''longitude'' = Some lon" "truthy lon"
    and k: "key = weatherCacheKey lat lon (weatherDate (tripInfo s))"
    and u: "url = weatherUrl rt lat lon (weatherDate (tripInfo s))"
  obtains
    (LookupThrew) "fails w (GetCachedWeatherData key)" and "threw"
      and "w' = w\<lparr>trace := trace w @ [GetCachedWeatherData key]\<rparr>" and "s' = s"
  | (Hit) "\<not> fails w (GetCachedWeatherData key)" and "truthy (cachedWeather w key)"
      and "\<not> threw"
      and "w' = w\<lparr>trace := trace w @ [GetCachedWeatherData key,
                  ConsoleLog ''-------Successfully fetched weather data from CACHE-------'']
                  @ processLog rt (cachedWeather w key)\<rparr>"
      and "s' = processState rt (cachedWeather w key) s"
  | (FetchThrew) "\<not> fails w (GetCachedWeatherData key)" and "\<not> truthy (cachedWeather w key)"
      and "http w url = None" and "\<not> threw"
      and "w' = w\<lparr>trace := trace w @ [GetCachedWeatherData key, HttpGet url,
                  ConsoleError ''Failed to fetch weather:'']\<rparr>"
      and "s' = s"
  | (StoreThrew) data where "\<not> fails w (GetCachedWeatherData key)"
      and "\<not> truthy (cachedWeather w key)" and "http w url = Some data"
      and "fails w (CacheWeatherData key data)" and "\<not> threw"
      and "w' = w\<lparr>trace := trace w @ [GetCachedWeatherData key, HttpGet url,
                  ConsoleLog ''-------Successfully fetched weather data from API-------'',
                  CacheWeatherData key data,
                  ConsoleError ''Failed to fetch weather:'']\<rparr>"
      and "s' = s"
  | (Fetched) data where "\<not> fails w (GetCachedWeatherData key)"
      and "\<not> truthy (cachedWeather w key)" and "http w url = Some data"
      and "\<not> fails w (CacheWeatherData key data)" and "\<not> threw"
      and "w' = w\<lparr>weatherCache := (weatherCache w)(key \<mapsto> data),
              trace := trace w @ [GetCachedWeatherData key, HttpGet url,
                  ConsoleLog ''-------Successfully fetched weather data from API-------'',
                  CacheWeatherData key data]
                  @ processLog rt data\<rparr>"
      and "s' = processState rt data s"
proof -
  note eq = run[unfolded fetchWeather_cases[OF c k u]]
  consider "fails w (GetCachedWeatherData key)"
    | "\<not> fails w (GetCachedWeatherData key)" "truthy (cachedWeather w key)"
    | "\<not> fails w (GetCachedWeatherData key)" "\<not> truthy (cachedWeather w key)" "http w url = None"
    | data where "\<not> fails w (GetCachedWeatherData key)" "\<not> truthy (cachedWeather w key)"
        "http w url = Some data" "fails w (CacheWeatherData key data)"
    | data where "\<not> fails w (GetCachedWeatherData key)" "\<not> truthy (cachedWeather w key)"
        "http w url = Some data" "\<not> fails w (CacheWeatherData key data)"
    by (cases "http w url") auto
  then show ?thesis
  proof cases
    case 1
    with eq show ?thesis by (intro LookupThrew) simp_all
  next
    case 2
    with eq show ?thesis by (intro Hit) simp_all
  next
    case 3
    with eq show ?thesis by (intro FetchThrew) simp_all
  next
    case (4 data)
    with eq show ?thesis by (intro StoreThrew[of data]) simp_all
  next
    case (5 data)
    with eq show ?thesis by (intro Fetched[of data]) simp_all
  qed
qed

lemma processLog_no_calls:
  "HttpGet u \<notin> set (processLog rt d)" "CacheWeatherData k v \<notin> set (processLog rt d)"
  "GetCachedWeatherData k \<notin> set (processLog rt d)"
  "filter isHttpGet (processLog rt d) = []"
  by (simp_all add: processLog_def split: option.split)

lemma fetchWeather_stored:
  assumes run: "fetchWeather rt (w, s) = (threw, w', s')"
    and c: "coordinate (tripInfo s) ''latitude'' = Some lat" "truthy lat"
      "coordinate (tripInfo s) ''longitude'' = Some lon" "truthy lon"
    and k: "key = weatherCacheKey lat lon (weatherDate (tripInfo s))"
    and u: "url = weatherUrl rt lat lon (weatherDate (tripInfo s))"
  shows "HttpGet url \<in> set (issued w w') \<and> http w url = Some data
           \<and> \<not> fails w (CacheWeatherData key data)
         \<longrightarrow> \<not> fails w' (GetCachedWeatherData key) \<and> cachedWeather w' key = data
             \<and> http w' = http w \<and> fails w' = fails w
             \<and> issued w w' = [GetCachedWeatherData key, HttpGet url,
                  ConsoleLog ''-------Successfully fetched weather data from API-------'',
                  CacheWeatherData key data] @ processLog rt data
             \<and> s' = processState rt data s"
proof (rule fetchWeather_run[OF run c k u], goal_cases)
  case 1
  then show ?case by (simp add: issued_def)
next
  case 2
  then show ?case by (auto simp: issued_def processLog_no_calls)
next
  case 3
  then show ?case by (auto simp: issued_def)
next
  case (4 d)
  then show ?case by (auto simp: issued_def)
next
  case (5 d)
  then show ?case by (auto simp: issued_def cachedWeather_def)
qed

lemma fetchWeather_stored_cache:
  assumes run: "fetchWeather rt (w, s) = (threw, w', s')"
    and c: "coordinate (tripInfo s) ''latitude'' = Some lat" "truthy lat"
      "coordinate (tripInfo s) ''longitude'' = Some lon" "truthy lon"
    and k: "key = weatherCacheKey lat lon (weatherDate (tripInfo s))"
    and u: "url = weatherUrl rt lat lon (weatherDate (tripInfo s))"
  shows "HttpGet url \<in> set (issued w w') \<and> http w url = Some data
           \<and> \<not> fails w (CacheWeatherData key data)
         \<longrightarrow> weatherCache w' key = Some data"
proof (rule fetchWeather_run[OF run c k u], goal_cases)
  case 1
  then show ?case by (simp add: issued_def)
next
  case 2
  then show ?case by (auto simp: issued_def processLog_no_calls)
next
  case 3
  then show ?case by (auto simp: issued_def)
next
  case (4 d)
  then show ?case by (auto simp: issued_def)
next
  case (5 d)
  then show ?case by (auto simp: issued_def)
qed

lemma fetchWeather_hit:
  assumes run: "fetchWeather rt (w, s) = (threw, w', s')"
    and c: "coordinate (tripInfo s) ''latitude'' = Some lat" "truthy lat"
      "coordinate (tripInfo s) ''longitude'' = Some lon" "truthy lon"
    and k: "key = weatherCacheKey lat lon (weatherDate (tripInfo s))"
    and u: "url = weatherUrl rt lat lon (weatherDate (tripInfo s))"
  shows "\<not> fails w (GetCachedWeatherData key) \<and> truthy (cachedWeather w key)
         \<longrightarrow> (\<forall>v. HttpGet v \<notin> set (issued w w'))
             \<and> issued w w' = [GetCachedWeatherData key,
                  ConsoleLog ''-------Successfully fetched weather data from CACHE-------'']
                  @ processLog rt (cachedWeather w key)
             \<and> s' = processState rt (cachedWeather w key) s"
proof (rule fetchWeather_run[OF run c k u], goal_cases)
  case 1
  then show ?case by (simp add: issued_def)
next
  case 2
  then show ?case by (auto simp: issued_def processLog_no_calls)
next
  case 3
  then show ?case by (auto simp: issued_def)
next
  case (4 d)
  then show ?case by (auto simp: issued_def)
next
  case (5 d)
  then show ?case by (auto simp: issued_def)
qed

lemma coordinate_truthy: "coordinate info k = Some v \<Longrightarrow> truthy v \<Longrightarrow> truthy info"
  by (cases info) (auto simp: coordinate_def getProp_def split: if_splits)

lemma triple_collapse: "r = (fst r, fst (snd r), snd (snd r))"
  by simp

text \<open>
  Claim C2, as stated: at most one HTTP GET per (latitude, longitude, start date)
  triple. The bound holds for one run, not for the triple: the effect runs again
  whenever \<open>tripInfo\<close> or the temperature unit changes, and a run that finds no entry
  under the key issues its own GET. Below, the network is down: the GET of the first
  run fails, nothing is stored, and the second run for the same triple issues the GET
  again.
\<close>

theorem fetchWeather_repeated_get_counterexample:
  "coordinate (tripInfo lakeState) ''latitude'' = Some (JNum 47)
   \<and> coordinate (tripInfo lakeState) ''longitude'' = Some (JNum 8)
   \<and> weatherCacheKey (JNum 47) (JNum 8) (weatherDate (tripInfo lakeState)) = ''47,8,2025-06-01''
   \<and> weatherUrl utcRuntime (JNum 47) (JNum 8) (weatherDate (tripInfo lakeState)) = lakeUrl
   \<and> snd (snd (fetchWeather utcRuntime (emptyWorld, lakeState))) = lakeState
   \<and> issued emptyWorld
        (fst (snd (fetchWeather utcRuntime
                     (snd (fetchWeather utcRuntime (emptyWorld, lakeState))))))
       = [GetCachedWeatherData ''47,8,2025-06-01'', HttpGet lakeUrl,
          ConsoleError ''Failed to fetch weather:'',
          GetCachedWeatherData ''47,8,2025-06-01'', HttpGet lakeUrl,
          ConsoleError ''Failed to fetch weather:'']
   \<and> length (filter isHttpGet
        (issued emptyWorld
           (fst (snd (fetchWeather utcRuntime
                        (snd (fetchWeather utcRuntime (emptyWorld, lakeState)))))))) = 2"
  by code_simp

text \<open>
  Claim C2, amended. For every trip with defined coordinates, one run of fetchWeather
  issues at most one HTTP GET, and it is the GET for the trip's (latitude, longitude,
  start date) triple. The cache key is the string \<^verbatim>\<open>lat,lon,date\<close>, where the
  date is \<^verbatim>\<open>tripInfo.dateRange.startDate\<close> or the empty string, and every cache call
  of the run uses that key. The GET is issued exactly when the lookup under the key
  missed: an entry under the key (a value that passes the code's \<^verbatim>\<open>if (cached)\<close>)
  suppresses it entirely, and every run that finds none issues it. On a miss the
  fetched JSON is handed to cacheWeatherData under the key, which stores it unless the
  call fails. Once a run has fetched such a payload and stored it, the next run for
  the same triple, started when that run has finished, issues no GET.
\<close>

theorem fetchWeather_cache_key:
  assumes run: "fetchWeather rt (w, s) = (threw, w', s')"
    and c: "coordinate (tripInfo s) ''latitude'' = Some lat" "truthy lat"
      "coordinate (tripInfo s) ''longitude'' = Some lon" "truthy lon"
    and k: "key = weatherCacheKey lat lon (weatherDate (tripInfo s))"
    and u: "url = weatherUrl rt lat lon (weatherDate (tripInfo s))"
    and again: "fetchWeather rt (w', s2) = (threw2, w'', s'')"
  shows
  "key = toStringJS lat @ '','' @ toStringJS lon @ '',''
           @ toStringJS (let d = optProp (field ''dateRange'' (tripInfo s)) ''startDate''
                         in if truthy d then d else JStr [])
   \<and> length (filter isHttpGet (issued w w')) \<le> 1
   \<and> (\<forall>v. HttpGet v \<in> set (issued w w') \<longrightarrow> v = url)
   \<and> (\<forall>j. GetCachedWeatherData j \<in> set (issued w w') \<longrightarrow> j = key)
   \<and> (\<forall>j v. CacheWeatherData j v \<in> set (issued w w') \<longrightarrow> j = key)
   \<and> (HttpGet url \<in> set (issued w w')
        \<longrightarrow> \<not> fails w (GetCachedWeatherData key) \<and> \<not> truthy (cachedWeather w key))
   \<and> (\<not> fails w (GetCachedWeatherData key) \<and> weatherCache w key = Some cached \<and> truthy cached
        \<longrightarrow> (\<forall>v. HttpGet v \<notin> set (issued w w')))
   \<and> (\<not> fails w (GetCachedWeatherData key) \<and> \<not> truthy (cachedWeather w key)
        \<longrightarrow> HttpGet url \<in> set (issued w w'))
   \<and> (HttpGet url \<in> set (issued w w') \<and> http w url = Some data
        \<longrightarrow> CacheWeatherData key data \<in> set (issued w w')
            \<and> (\<not> fails w (CacheWeatherData key data) \<longrightarrow> weatherCache w' key = Some data))
   \<and> (HttpGet url \<in> set (issued w w') \<and> http w url = Some data \<and> truthy data
        \<and> \<not> fails w (CacheWeatherData key data)
        \<and> coordinate (tripInfo s2) ''latitude'' = Some lat
        \<and> coordinate (tripInfo s2) ''longitude'' = Some lon
        \<and> weatherDate (tripInfo s2) = weatherDate (tripInfo s)
        \<longrightarrow> (\<forall>v. HttpGet v \<notin> set (issued w' w'')))"
proof -
  have key: "key = toStringJS lat @ '','' @ toStringJS lon @ '',''
           @ toStringJS (let d = optProp (field ''dateRange'' (tripInfo s)) ''startDate''
                         in if truthy d then d else JStr [])"
    by (simp add: k weatherCacheKey_def weatherDate_def)
  have rest: "length (filter isHttpGet (issued w w')) \<le> 1
   \<and> (\<forall>v. HttpGet v \<in> set (issued w w') \<longrightarrow> v = url)
   \<and> (\<forall>j. GetCachedWeatherData j \<in> set (issued w w') \<longrightarrow> j = key)
   \<and> (\<forall>j v. CacheWeatherData j v \<in> set (issued w w') \<longrightarrow> j = key)
   \<and> (HttpGet url \<in> set (issued w w')
        \<longrightarrow> \<not> fails w (GetCachedWeatherData key) \<and> \<not> truthy (cachedWeather w key))
   \<and> (\<not> fails w (GetCachedWeatherData key) \<and> weatherCache w key = Some cached \<and> truthy cached
        \<longrightarrow> (\<forall>v. HttpGet v \<notin> set (issued w w')))
   \<and> (\<not> fails w (GetCachedWeatherData key) \<and> \<not> truthy (cachedWeather w key)
        \<longrightarrow> HttpGet url \<in> set (issued w w'))
   \<and> (HttpGet url \<in> set (issued w w') \<and> http w url = Some data
        \<longrightarrow> CacheWeatherData key data \<in> set (issued w w')
            \<and> (\<not> fails w (CacheWeatherData key data) \<longrightarrow> weatherCache w' key = Some data))"
  proof (rule fetchWeather_run[OF run c k u], goal_cases)
    case 1
    then show ?case by (simp add: issued_def)
  next
    case 2
    then show ?case by (auto simp: issued_def processLog_no_calls cachedWeather_def)
  next
    case 3
    then show ?case by (auto simp: issued_def cachedWeather_def)
  next
    case (4 d)
    then show ?case by (auto simp: issued_def cachedWeather_def)
  next
    case (5 d)
    then show ?case by (auto simp: issued_def processLog_no_calls cachedWeather_def)
  qed
  have second: "\<forall>v. HttpGet v \<notin> set (issued w' w'')"
    if h: "HttpGet url \<in> set (issued w w') \<and> http w url = Some data \<and> truthy data
        \<and> \<not> fails w (CacheWeatherData key data)
        \<and> coordinate (tripInfo s2) ''latitude'' = Some lat
        \<and> coordinate (tripInfo s2) ''longitude'' = Some lon
        \<and> weatherDate (tripInfo s2) = weatherDate (tripInfo s)"
  proof -
    from h have c2: "coordinate (tripInfo s2) ''latitude'' = Some lat" "truthy lat"
      "coordinate (tripInfo s2) ''longitude'' = Some lon" "truthy lon"
      and k2: "key = weatherCacheKey lat lon (weatherDate (tripInfo s2))"
      and u2: "url = weatherUrl rt lat lon (weatherDate (tripInfo s2))"
      using c k u by simp_all
    from fetchWeather_stored[OF run c k u] h
    have st: "\<not> fails w' (GetCachedWeatherData key)" "cachedWeather w' key = data" by blast+
    from fetchWeather_hit[OF again c2 k2 u2] st h show ?thesis by blast
  qed
  from key rest second show ?thesis by blast
qed

text \<open>The theorem at a trip at 47, 8 on 2025-06-01, loaded twice while online.\<close>

theorem fetchWeather_cache_key_witness:
  "coordinate (tripInfo lakeState) ''latitude'' = Some (JNum 47) \<and> truthy (JNum 47)
   \<and> coordinate (tripInfo lakeState) ''longitude'' = Some (JNum 8) \<and> truthy (JNum 8)
   \<and> weatherCacheKey (JNum 47) (JNum 8) (weatherDate (tripInfo lakeState)) = ''47,8,2025-06-01''
   \<and> weatherUrl utcRuntime (JNum 47) (JNum 8) (weatherDate (tripInfo lakeState)) = lakeUrl
   \<and> \<not> fails onlineWorld (GetCachedWeatherData ''47,8,2025-06-01'')
   \<and> \<not> truthy (cachedWeather onlineWorld ''47,8,2025-06-01'')
   \<and> HttpGet lakeUrl
       \<in> set (issued onlineWorld (fst (snd (fetchWeather utcRuntime (onlineWorld, lakeState)))))
   \<and> http onlineWorld lakeUrl = Some weatherPayload \<and> truthy weatherPayload
   \<and> \<not> fails onlineWorld (CacheWeatherData ''47,8,2025-06-01'' weatherPayload)
   \<and> length (filter isHttpGet
        (issued onlineWorld (fst (snd (fetchWeather utcRuntime (onlineWorld, lakeState)))))) \<le> 1
   \<and> weatherCache (fst (snd (fetchWeather utcRuntime (onlineWorld, lakeState))))
        ''47,8,2025-06-01'' = Some weatherPayload
   \<and> HttpGet lakeUrl
       \<notin> set (issued (fst (snd (fetchWeather utcRuntime (onlineWorld, lakeState))))
                (fst (snd (fetchWeather utcRuntime
                             (snd (fetchWeather utcRuntime (onlineWorld, lakeState)))))))"
proof -
  let ?r1 = "fetchWeather utcRuntime (onlineWorld, lakeState)"
  let ?r2 = "fetchWeather utcRuntime (snd ?r1)"
  let ?r3 = "fetchWeather utcRuntime (snd ?r2)"
  have c: "coordinate (tripInfo lakeState) ''latitude'' = Some (JNum 47)" "truthy (JNum 47)"
    "coordinate (tripInfo lakeState) ''longitude'' = Some (JNum 8)" "truthy (JNum 8)"
    by code_simp+
  have k: "''47,8,2025-06-01'' = weatherCacheKey (JNum 47) (JNum 8) (weatherDate (tripInfo lakeState))"
    and u: "lakeUrl = weatherUrl utcRuntime (JNum 47) (JNum 8) (weatherDate (tripInfo lakeState))"
    by code_simp+
  have m: "\<not> fails onlineWorld (GetCachedWeatherData ''47,8,2025-06-01'')"
    "\<not> truthy (cachedWeather onlineWorld ''47,8,2025-06-01'')"
    and p: "http onlineWorld lakeUrl = Some weatherPayload" "truthy weatherPayload"
    "\<not> fails onlineWorld (CacheWeatherData ''47,8,2025-06-01'' weatherPayload)"
    by code_simp+
  have s2: "coordinate (tripInfo (snd (snd ?r1))) ''latitude'' = Some (JNum 47)"
    "coordinate (tripInfo (snd (snd ?r1))) ''longitude'' = Some (JNum 8)"
    "weatherDate (tripInfo (snd (snd ?r1))) = weatherDate (tripInfo lakeState)"
    by code_simp+
  have r2: "fetchWeather utcRuntime (fst (snd ?r1), snd (snd ?r1))
              = (fst ?r2, fst (snd ?r2), snd (snd ?r2))"
    by simp
  note first = fetchWeather_cache_key[OF triple_collapse[of ?r1] c k u r2,
      of weatherPayload weatherPayload]
  from first m have g: "HttpGet lakeUrl \<in> set (issued onlineWorld (fst (snd ?r1)))" by blast
  note h = g p
  from first h s2 have a: "length (filter isHttpGet (issued onlineWorld (fst (snd ?r1)))) \<le> 1"
    "weatherCache (fst (snd ?r1)) ''47,8,2025-06-01'' = Some weatherPayload"
    "HttpGet lakeUrl \<notin> set (issued (fst (snd ?r1)) (fst (snd ?r2)))"
    by blast+
  from c k u m h a show ?thesis by simp
qed

text \<open>
  Claim C3, as stated: after a failed fetch every weather field renders "--". The
  catch block returns without touching the weather state, so the fields show what the
  state held before, and that is null only until the first payload has been processed.
  Below, the tab shows a first trip with its weather and then loads a second trip,
  whose fetch fails: the view of the second trip shows the temperatures of the first.
\<close>

theorem fetchWeather_stale_weather_counterexample:
  "weather (snd (snd (fetchWeather utcRuntime (hillWorld, lakeState)))) = Some lakeWeather
   \<and> tripInfo (snd lakeThenHill) = hillTrip
   \<and> coordinate hillTrip ''latitude'' = Some (JNum 46)
   \<and> coordinate hillTrip ''longitude'' = Some (JNum 9)
   \<and> weatherUrl utcRuntime (JNum 46) (JNum 9) (weatherDate hillTrip) = hillUrl
   \<and> http (fst lakeThenHill) hillUrl = None
   \<and> issued (fst lakeThenHill) (fst (snd (fetchWeather utcRuntime lakeThenHill)))
       = [GetCachedWeatherData ''46,9,2025-06-02'', HttpGet hillUrl,
          ConsoleError ''Failed to fetch weather:'']
   \<and> renderInfoTab utcRuntime (snd (snd (fetchWeather utcRuntime lakeThenHill)))
       = TripScreen hillView
   \<and> nameText hillView = JStr ''Hill Path''
   \<and> tempText hillView = ''71F'' \<and> tempText hillView \<noteq> ''--''
   \<and> highText hillView = ''75F'' \<and> lowText hillView = ''60F''"
  by code_simp

text \<open>
  Claim C3, amended. If the HTTP fetch throws, fetchWeather catches the error, logs it
  and returns: the run consists of the cache lookup, the GET and the logged error, it
  writes no cache entry and changes nothing but the trace, and the component state is
  the one it started from. So the view is unchanged: no error message appears unless
  one was pending already, and every weather field shows the placeholder "--" when the
  weather state is null, as it is until a payload has been processed; otherwise the
  fields keep the values of the last processed payload.
\<close>

theorem fetchWeather_fetch_failure:
  assumes run: "fetchWeather rt (w, s) = (threw, w', s')"
    and c: "coordinate (tripInfo s) ''latitude'' = Some lat" "truthy lat"
      "coordinate (tripInfo s) ''longitude'' = Some lon" "truthy lon"
    and k: "key = weatherCacheKey lat lon (weatherDate (tripInfo s))"
    and u: "url = weatherUrl rt lat lon (weatherDate (tripInfo s))"
  shows
  "HttpGet url \<in> set (issued w w') \<and> http w url = None
   \<longrightarrow> \<not> threw
       \<and> issued w w' = [GetCachedWeatherData key, HttpGet url,
                         ConsoleError ''Failed to fetch weather:'']
       \<and> s' = s
       \<and> w' = w\<lparr>trace := trace w'\<rparr>
       \<and> renderInfoTab rt s' = renderInfoTab rt s
       \<and> (\<not> strTruthy (error s) \<longrightarrow> (\<forall>m. renderInfoTab rt s' \<noteq> ErrorScreen m))
       \<and> (weather s = None
            \<longrightarrow> (\<forall>v. renderInfoTab rt s' = TripScreen v
                      \<longrightarrow> tempText v = ''--'' \<and> weatherStatus v = ''--''
                          \<and> weatherFeelsLike v = ''--'' \<and> weatherIcon v = None
                          \<and> highText v = ''--'' \<and> lowText v = ''--''
                          \<and> humidityText v = ''--'' \<and> precipitationText v = ''--''
                          \<and> sunriseText v = ''--'' \<and> sunsetText v = ''--''))
       \<and> (weather s = Some shown
            \<longrightarrow> (\<forall>v. renderInfoTab rt s' = TripScreen v
                      \<longrightarrow> tempText v = temperature shown \<and> weatherStatus v = status shown
                          \<and> weatherFeelsLike v = feels_like shown
                          \<and> highText v = high shown \<and> lowText v = low shown
                          \<and> humidityText v = humidity shown
                          \<and> precipitationText v = precipitation shown
                          \<and> sunriseText v = sunrise shown \<and> sunsetText v = sunset shown))"
proof (rule fetchWeather_run[OF run c k u], goal_cases)
  case 1
  then show ?case by (simp add: issued_def)
next
  case 2
  then show ?case by (auto simp: issued_def processLog_no_calls)
next
  case 3
  have t: "truthy (tripInfo s)" using coordinate_truthy[OF c(1,2)] .
  have noerr: "renderInfoTab rt s \<noteq> ErrorScreen m" if "\<not> strTruthy (error s)" for m
    using that t
    by (auto simp: renderInfoTab_def Let_def split: option.splits prod.splits)
  have blank: "tempText v = ''--'' \<and> weatherStatus v = ''--''
                          \<and> weatherFeelsLike v = ''--'' \<and> weatherIcon v = None
                          \<and> highText v = ''--'' \<and> lowText v = ''--''
                          \<and> humidityText v = ''--'' \<and> precipitationText v = ''--''
                          \<and> sunriseText v = ''--'' \<and> sunsetText v = ''--''"
    if "weather s = None" "renderInfoTab rt s = TripScreen v" for v
    using that
    by (auto simp: renderInfoTab_def Let_def weatherField_def
        split: if_splits option.splits prod.splits)
  have kept: "tempText v = temperature shown \<and> weatherStatus v = status shown
                          \<and> weatherFeelsLike v = feels_like shown
                          \<and> highText v = high shown \<and> lowText v = low shown
                          \<and> humidityText v = humidity shown
                          \<and> precipitationText v = precipitation shown
                          \<and> sunriseText v = sunrise shown \<and> sunsetText v = sunset shown"
    if "weather s = Some shown" "renderInfoTab rt s = TripScreen v" for v
    using that
    by (auto simp: renderInfoTab_def Let_def weatherField_def
        split: if_splits option.splits prod.splits)
  from 3 noerr blank kept show ?case by (auto simp: issued_def)
next
  case (4 d)
  then show ?case by (auto simp: issued_def)
next
  case (5 d)
  then show ?case by (auto simp: issued_def processLog_no_calls)
qed

text \<open>
  The theorem at the first trip on a device without network, and at the second trip
  once the tab has shown the weather of the first.
\<close>

theorem fetchWeather_fetch_failure_witness:
  "coordinate (tripInfo lakeState) ''latitude'' = Some (JNum 47) \<and> truthy (JNum 47)
   \<and> coordinate (tripInfo lakeState) ''longitude'' = Some (JNum 8) \<and> truthy (JNum 8)
   \<and> HttpGet lakeUrl
       \<in> set (issued emptyWorld (fst (snd (fetchWeather utcRuntime (emptyWorld, lakeState)))))
   \<and> http emptyWorld lakeUrl = None
   \<and> weather lakeState = None
   \<and> \<not> strTruthy (error lakeState)
   \<and> snd (snd (fetchWeather utcRuntime (emptyWorld, lakeState))) = lakeState
   \<and> issued emptyWorld (fst (snd (fetchWeather utcRuntime (emptyWorld, lakeState))))
       = [GetCachedWeatherData ''47,8,2025-06-01'', HttpGet lakeUrl,
          ConsoleError ''Failed to fetch weather:'']
   \<and> renderInfoTab utcRuntime (snd (snd (fetchWeather utcRuntime (emptyWorld, lakeState))))
       = TripScreen lakeView
   \<and> tempText lakeView = ''--'' \<and> weatherStatus lakeView = ''--''
   \<and> weatherFeelsLike lakeView = ''--'' \<and> weatherIcon lakeView = None
   \<and> highText lakeView = ''--'' \<and> lowText lakeView = ''--''
   \<and> humidityText lakeView = ''--'' \<and> precipitationText lakeView = ''--''
   \<and> sunriseText lakeView = ''--'' \<and> sunsetText lakeView = ''--''
   \<and> coordinate (tripInfo (snd lakeThenHill)) ''latitude'' = Some (JNum 46) \<and> truthy (JNum 46)
   \<and> coordinate (tripInfo (snd lakeThenHill)) ''longitude'' = Some (JNum 9) \<and> truthy (JNum 9)
   \<and> HttpGet hillUrl
       \<in> set (issued (fst lakeThenHill) (fst (snd (fetchWeather utcRuntime lakeThenHill))))
   \<and> http (fst lakeThenHill) hillUrl = None
   \<and> weather (snd lakeThenHill) = Some lakeWeather
   \<and> renderInfoTab utcRuntime (snd (snd (fetchWeather utcRuntime lakeThenHill)))
       = TripScreen hillView
   \<and> tempText hillView = temperature lakeWeather \<and> weatherStatus hillView = status lakeWeather
   \<and> weatherFeelsLike hillView = feels_like lakeWeather
   \<and> highText hillView = high lakeWeather \<and> lowText hillView = low lakeWeather
   \<and> humidityText hillView = humidity lakeWeather
   \<and> precipitationText hillView = precipitation lakeWeather
   \<and> sunriseText hillView = sunrise lakeWeather \<and> sunsetText hillView = sunset lakeWeather"
proof -
  let ?r = "fetchWeather utcRuntime (emptyWorld, lakeState)"
  let ?q = "fetchWeather utcRuntime lakeThenHill"
  have c: "coordinate (tripInfo lakeState) ''latitude'' = Some (JNum 47)" "truthy (JNum 47)"
    "coordinate (tripInfo lakeState) ''longitude'' = Some (JNum 8)" "truthy (JNum 8)"
    by code_simp+
  have k: "''47,8,2025-06-01'' = weatherCacheKey (JNum 47) (JNum 8) (weatherDate (tripInfo lakeState))"
    and u: "lakeUrl = weatherUrl utcRuntime (JNum 47) (JNum 8) (weatherDate (tripInfo lakeState))"
    by code_simp+
  have h: "HttpGet lakeUrl \<in> set (issued emptyWorld (fst (snd ?r)))"
    "http emptyWorld lakeUrl = None" "weather lakeState = None"
    by code_simp+
  have ne: "\<not> strTruthy (error lakeState)" by code_simp
  have v: "renderInfoTab utcRuntime lakeState = TripScreen lakeView"
    by code_simp
  note inst = fetchWeather_fetch_failure[OF triple_collapse[of ?r] c k u,
      THEN mp, OF conjI[OF h(1) h(2)]]
  have a1: "snd (snd ?r) = lakeState"
    using inst[THEN conjunct2, THEN conjunct2] by (rule conjunct1)
  have a2: "issued emptyWorld (fst (snd ?r))
       = [GetCachedWeatherData ''47,8,2025-06-01'', HttpGet lakeUrl,
          ConsoleError ''Failed to fetch weather:'']"
    using inst[THEN conjunct2] by (rule conjunct1)
  have a3: "renderInfoTab utcRuntime (snd (snd ?r)) = renderInfoTab utcRuntime lakeState"
    using inst[THEN conjunct2, THEN conjunct2, THEN conjunct2, THEN conjunct2]
    by (rule conjunct1)
  have r: "renderInfoTab utcRuntime (snd (snd ?r)) = TripScreen lakeView"
    by (rule trans[OF a3 v])
  note f = inst[THEN conjunct2, THEN conjunct2, THEN conjunct2, THEN conjunct2, THEN conjunct2,
      THEN conjunct2, THEN conjunct1, THEN mp, OF h(3), THEN spec, THEN mp, OF r]
  have c': "coordinate (tripInfo (snd lakeThenHill)) ''latitude'' = Some (JNum 46)"
    "truthy (JNum 46)"
    "coordinate (tripInfo (snd lakeThenHill)) ''longitude'' = Some (JNum 9)" "truthy (JNum 9)"
    by code_simp+
  have k': "''46,9,2025-06-02''
      = weatherCacheKey (JNum 46) (JNum 9) (weatherDate (tripInfo (snd lakeThenHill)))"
    and u': "hillUrl = weatherUrl utcRuntime (JNum 46) (JNum 9) (weatherDate (tripInfo (snd lakeThenHill)))"
    by code_simp+
  have h': "HttpGet hillUrl \<in> set (issued (fst lakeThenHill) (fst (snd ?q)))"
    "http (fst lakeThenHill) hillUrl = None" "weather (snd lakeThenHill) = Some lakeWeather"
    by code_simp+
  have v': "renderInfoTab utcRuntime (snd lakeThenHill) = TripScreen hillView"
    by code_simp
  have q: "fetchWeather utcRuntime (fst lakeThenHill, snd lakeThenHill)
             = (fst ?q, fst (snd ?q), snd (snd ?q))"
    by simp
  note inst' = fetchWeather_fetch_failure[OF q c' k' u', THEN mp, OF conjI[OF h'(1) h'(2)]]
  have b3: "renderInfoTab utcRuntime (snd (snd ?q)) = renderInfoTab utcRuntime (snd lakeThenHill)"
    using inst'[THEN conjunct2, THEN conjunct2, THEN conjunct2, THEN conjunct2]
    by (rule conjunct1)
  have r': "renderInfoTab utcRuntime (snd (snd ?q)) = TripScreen hillView"
    by (rule trans[OF b3 v'])
  note f' = inst'[THEN conjunct2, THEN conjunct2, THEN conjunct2, THEN conjunct2, THEN conjunct2,
      THEN conjunct2, THEN conjunct2, THEN mp, OF h'(3), THEN spec, THEN mp, OF r']
  show ?thesis
    by (intro conjI c h ne a1 a2 r f[THEN conjunct1]
        f[THEN conjunct2, THEN conjunct1]
        f[THEN conjunct2, THEN conjunct2, THEN conjunct1]
        f[THEN conjunct2, THEN conjunct2, THEN conjunct2, THEN conjunct1]
        f[THEN conjunct2, THEN conjunct2, THEN conjunct2, THEN conjunct2, THEN conjunct1]
        f[THEN conjunct2, THEN conjunct2, THEN conjunct2, THEN conjunct2, THEN conjunct2,
          THEN conjunct1]
        f[THEN conjunct2, THEN conjunct2, THEN conjunct2, THEN conjunct2, THEN conjunct2,
          THEN conjunct2, THEN conjunct1]
        f[THEN conjunct2, THEN conjunct2, THEN conjunct2, THEN conjunct2, THEN conjunct2,
          THEN conjunct2, THEN conjunct2, THEN conjunct1]
        f[THEN conjunct2, THEN conjunct2, THEN conjunct2, THEN conjunct2, THEN conjunct2,
          THEN conjunct2, THEN conjunct2, THEN conjunct2, THEN conjunct1]
        f[THEN conjunct2, THEN conjunct2, THEN conjunct2, THEN conjunct2, THEN conjunct2,
          THEN conjunct2, THEN conjunct2, THEN conjunct2, THEN conjunct2]
        c' h' r' f'[THEN conjunct1]
        f'[THEN conjunct2, THEN conjunct1]
        f'[THEN conjunct2, THEN conjunct2, THEN conjunct1]
        f'[THEN conjunct2, THEN conjunct2, THEN conjunct2, THEN conjunct1]
        f'[THEN conjunct2, THEN conjunct2, THEN conjunct2, THEN conjunct2, THEN conjunct1]
        f'[THEN conjunct2, THEN conjunct2, THEN conjunct2, THEN conjunct2, THEN conjunct2,
          THEN conjunct1]
        f'[THEN conjunct2, THEN conjunct2, THEN conjunct2, THEN conjunct2, THEN conjunct2,
          THEN conjunct2, THEN conjunct1]
        f'[THEN conjunct2, THEN conjunct2, THEN conjunct2, THEN conjunct2, THEN conjunct2,
          THEN conjunct2, THEN conjunct2, THEN conjunct1]
        f'[THEN conjunct2, THEN conjunct2, THEN conjunct2, THEN conjunct2, THEN conjunct2,
          THEN conjunct2, THEN conjunct2, THEN conjunct2])
qed

text \<open>
  Claim C8. A fetched response is written to the cache before it is processed. If the
  response parses as JSON and processing it then fails, the run is: lookup, GET,
  cacheWeatherData under the (lat, lon, date) key, and only then the logged processing
  failure; the payload is in the cache and the weather state is untouched. A later load
  for the same key is served that payload from the cache (a truthy payload, as every
  JSON object is), issues no GET, and fails processing again.
\<close>

theorem fetchWeather_caches_before_processing:
  assumes run: "fetchWeather rt (w, s) = (threw, w', s')"
    and c: "coordinate (tripInfo s) ''latitude'' = Some lat" "truthy lat"
      "coordinate (tripInfo s) ''longitude'' = Some lon" "truthy lon"
    and k: "key = weatherCacheKey lat lon (weatherDate (tripInfo s))"
    and u: "url = weatherUrl rt lat lon (weatherDate (tripInfo s))"
    and again: "fetchWeather rt (w', s2) = (threw2, w'', s'')"
  shows
  "HttpGet url \<in> set (issued w w') \<and> http w url = Some data
     \<and> \<not> fails w (CacheWeatherData key data) \<and> processWeather rt data = None
   \<longrightarrow> issued w w' = [GetCachedWeatherData key, HttpGet url,
                  ConsoleLog ''-------Successfully fetched weather data from API-------'',
                  CacheWeatherData key data,
                  ConsoleError ''Failed to process weather data:'']
       \<and> weatherCache w' key = Some data
       \<and> s' = s
       \<and> (truthy data
            \<and> coordinate (tripInfo s2) ''latitude'' = Some lat
            \<and> coordinate (tripInfo s2) ''longitude'' = Some lon
            \<and> weatherDate (tripInfo s2) = weatherDate (tripInfo s)
            \<longrightarrow> issued w' w'' = [GetCachedWeatherData key,
                    ConsoleLog ''-------Successfully fetched weather data from CACHE-------'',
                    ConsoleError ''Failed to process weather data:'']
                \<and> (\<forall>v. HttpGet v \<notin> set (issued w' w''))
                \<and> s'' = s2)"
proof (intro impI)
  assume h: "HttpGet url \<in> set (issued w w') \<and> http w url = Some data
     \<and> \<not> fails w (CacheWeatherData key data) \<and> processWeather rt data = None"
  from fetchWeather_stored[OF run c k u, of data] h
  have st: "\<not> fails w' (GetCachedWeatherData key)" "cachedWeather w' key = data"
    and iss: "issued w w' = [GetCachedWeatherData key, HttpGet url,
                  ConsoleLog ''-------Successfully fetched weather data from API-------'',
                  CacheWeatherData key data] @ processLog rt data"
    and s': "s' = processState rt data s" by blast+
  from h have pl: "processLog rt data = [ConsoleError ''Failed to process weather data:'']"
    and ps: "\<And>x. processState rt data x = x"
    by (simp_all add: processLog_def processState_def)
  have first: "issued w w' = [GetCachedWeatherData key, HttpGet url,
                  ConsoleLog ''-------Successfully fetched weather data from API-------'',
                  CacheWeatherData key data,
                  ConsoleError ''Failed to process weather data:'']" "s' = s"
    using iss s' pl ps by simp_all
  have cache: "weatherCache w' key = Some data"
    using fetchWeather_stored_cache[OF run c k u, of data] h by blast
  have second: "issued w' w'' = [GetCachedWeatherData key,
                    ConsoleLog ''-------Successfully fetched weather data from CACHE-------'',
                    ConsoleError ''Failed to process weather data:'']
                \<and> (\<forall>v. HttpGet v \<notin> set (issued w' w''))
                \<and> s'' = s2"
    if g: "truthy data
            \<and> coordinate (tripInfo s2) ''latitude'' = Some lat
            \<and> coordinate (tripInfo s2) ''longitude'' = Some lon
            \<and> weatherDate (tripInfo s2) = weatherDate (tripInfo s)"
  proof -
    from g have c2: "coordinate (tripInfo s2) ''latitude'' = Some lat" "truthy lat"
      "coordinate (tripInfo s2) ''longitude'' = Some lon" "truthy lon"
      and k2: "key = weatherCacheKey lat lon (weatherDate (tripInfo s2))"
      and u2: "url = weatherUrl rt lat lon (weatherDate (tripInfo s2))"
      using c k u by simp_all
    from fetchWeather_hit[OF again c2 k2 u2] st g pl ps show ?thesis by simp
  qed
  from first cache second
  show "issued w w' = [GetCachedWeatherData key, HttpGet url,
                  ConsoleLog ''-------Successfully fetched weather data from API-------'',
                  CacheWeatherData key data,
                  ConsoleError ''Failed to process weather data:'']
       \<and> weatherCache w' key = Some data
       \<and> s' = s
       \<and> (truthy data
            \<and> coordinate (tripInfo s2) ''latitude'' = Some lat
            \<and> coordinate (tripInfo s2) ''longitude'' = Some lon
            \<and> weatherDate (tripInfo s2) = weatherDate (tripInfo s)
            \<longrightarrow> issued w' w'' = [GetCachedWeatherData key,
                    ConsoleLog ''-------Successfully fetched weather data from CACHE-------'',
                    ConsoleError ''Failed to process weather data:'']
                \<and> (\<forall>v. HttpGet v \<notin> set (issued w' w''))
                \<and> s'' = s2)" by blast
qed

text \<open>
  The theorem at a provider that answers with its error object (an invalid API key):
  the object is cached, and the second load never reaches the network.
\<close>

theorem fetchWeather_caches_before_processing_witness:
  "coordinate (tripInfo lakeState) ''latitude'' = Some (JNum 47) \<and> truthy (JNum 47)
   \<and> coordinate (tripInfo lakeState) ''longitude'' = Some (JNum 8) \<and> truthy (JNum 8)
   \<and> HttpGet lakeUrl
       \<in> set (issued badKeyWorld (fst (snd (fetchWeather utcRuntime (badKeyWorld, lakeState)))))
   \<and> http badKeyWorld lakeUrl = Some apiErrorPayload
   \<and> \<not> fails badKeyWorld (CacheWeatherData ''47,8,2025-06-01'' apiErrorPayload)
   \<and> processWeather utcRuntime apiErrorPayload = None
   \<and> truthy apiErrorPayload
   \<and> issued badKeyWorld (fst (snd (fetchWeather utcRuntime (badKeyWorld, lakeState))))
       = [GetCachedWeatherData ''47,8,2025-06-01'', HttpGet lakeUrl,
          ConsoleLog ''-------Successfully fetched weather data from API-------'',
          CacheWeatherData ''47,8,2025-06-01'' apiErrorPayload,
          ConsoleError ''Failed to process weather data:'']
   \<and> weatherCache (fst (snd (fetchWeather utcRuntime (badKeyWorld, lakeState))))
        ''47,8,2025-06-01'' = Some apiErrorPayload
   \<and> issued (fst (snd (fetchWeather utcRuntime (badKeyWorld, lakeState))))
        (fst (snd (fetchWeather utcRuntime
                     (snd (fetchWeather utcRuntime (badKeyWorld, lakeState))))))
       = [GetCachedWeatherData ''47,8,2025-06-01'',
          ConsoleLog ''-------Successfully fetched weather data from CACHE-------'',
          ConsoleError ''Failed to process weather data:'']"
proof -
  let ?r1 = "fetchWeather utcRuntime (badKeyWorld, lakeState)"
  let ?r2 = "fetchWeather utcRuntime (snd ?r1)"
  have c: "coordinate (tripInfo lakeState) ''latitude'' = Some (JNum 47)" "truthy (JNum 47)"
    "coordinate (tripInfo lakeState) ''longitude'' = Some (JNum 8)" "truthy (JNum 8)"
    by code_simp+
  have k: "''47,8,2025-06-01'' = weatherCacheKey (JNum 47) (JNum 8) (weatherDate (tripInfo lakeState))"
    and u: "lakeUrl = weatherUrl utcRuntime (JNum 47) (JNum 8) (weatherDate (tripInfo lakeState))"
    by code_simp+
  have h: "HttpGet lakeUrl \<in> set (issued badKeyWorld (fst (snd ?r1)))"
    "http badKeyWorld lakeUrl = Some apiErrorPayload"
    "\<not> fails badKeyWorld (CacheWeatherData ''47,8,2025-06-01'' apiErrorPayload)"
    "processWeather utcRuntime apiErrorPayload = None" "truthy apiErrorPayload"
    by code_simp+
  have s2: "coordinate (tripInfo (snd (snd ?r1))) ''latitude'' = Some (JNum 47)"
    "coordinate (tripInfo (snd (snd ?r1))) ''longitude'' = Some (JNum 8)"
    "weatherDate (tripInfo (snd (snd ?r1))) = weatherDate (tripInfo lakeState)"
    by code_simp+
  have r2: "fetchWeather utcRuntime (fst (snd ?r1), snd (snd ?r1))
              = (fst ?r2, fst (snd ?r2), snd (snd ?r2))"
    by simp
  note inst = fetchWeather_caches_before_processing[OF triple_collapse[of ?r1] c k u r2,
      of apiErrorPayload]
  from inst h s2 have a: "issued badKeyWorld (fst (snd ?r1))
       = [GetCachedWeatherData ''47,8,2025-06-01'', HttpGet lakeUrl,
          ConsoleLog ''-------Successfully fetched weather data from API-------'',
          CacheWeatherData ''47,8,2025-06-01'' apiErrorPayload,
          ConsoleError ''Failed to process weather data:'']"
    "weatherCache (fst (snd ?r1)) ''47,8,2025-06-01'' = Some apiErrorPayload"
    "issued (fst (snd ?r1)) (fst (snd ?r2))
       = [GetCachedWeatherData ''47,8,2025-06-01'',
          ConsoleLog ''-------Successfully fetched weather data from CACHE-------'',
          ConsoleError ''Failed to process weather data:'']"
    by blast+
  from c h a show ?thesis by blast
qed

section \<open>Properties of handleDeletePlan\<close>

lemma deleteCaches_frame:
  "deleteCaches ids w = (r, w') \<Longrightarrow>
     tripsTable w' = tripsTable w \<and> plansTable w' = plansTable w \<and> fails w' = fails w
     \<and> (\<exists>evs rest. trace w' = trace w @ evs \<and> cacheDeletes ids = evs @ rest
            \<and> (r = None \<longleftrightarrow> (\<exists>e\<in>set evs. fails w e))
            \<and> (r \<noteq> None \<longrightarrow> rest = [])
            \<and> (r = None \<longrightarrow> evs \<noteq> []))"
proof (induction ids arbitrary: w)
  case Nil
  then show ?case by (auto simp: cacheDeletes_def)
next
  case (Cons t ts)
  show ?case
  proof (cases "fails w (DeleteCachedTrailData t)")
    case True
    with Cons.prems have "r = None" "w' = emit (DeleteCachedTrailData t) w"
      by (auto simp: deleteCachedTrailData_def)
    with True show ?thesis
      by (auto simp: emit_def cacheDeletes_def
          intro!: exI[of _ "[DeleteCachedTrailData t]"])
  next
    case f1: False
    show ?thesis
    proof (cases "fails w (DeleteCachedChatMessages t)")
      case True
      with f1 Cons.prems have "r = None"
        "w' = emit (DeleteCachedChatMessages t)
                (emit (DeleteCachedTrailData t)
                   (w\<lparr>trailCache := (trailCache w)(toStringJS t := None)\<rparr>))"
        by (auto simp: deleteCachedTrailData_def deleteCachedChatMessages_def emit_def)
      with True show ?thesis
        by (auto simp: emit_def cacheDeletes_def
            intro!: exI[of _ "[DeleteCachedTrailData t, DeleteCachedChatMessages t]"])
    next
      case f2: False
      define w2 where "w2 = w\<lparr>trailCache := (trailCache w)(toStringJS t := None),
                chatCache := (chatCache w)(toStringJS t := None),
                trace := trace w @ [DeleteCachedTrailData t, DeleteCachedChatMessages t]\<rparr>"
      from f1 f2 Cons.prems have rec: "deleteCaches ts w2 = (r, w')"
        by (auto simp: deleteCachedTrailData_def deleteCachedChatMessages_def emit_def w2_def)
      have w2: "tripsTable w2 = tripsTable w" "plansTable w2 = plansTable w" "fails w2 = fails w"
        "trace w2 = trace w @ [DeleteCachedTrailData t, DeleteCachedChatMessages t]"
        by (simp_all add: w2_def emit_def)
      from Cons.IH[OF rec] obtain evs rest where
        ih: "tripsTable w' = tripsTable w2" "plansTable w' = plansTable w2" "fails w' = fails w2"
          "trace w' = trace w2 @ evs" "cacheDeletes ts = evs @ rest"
          "r = None \<longleftrightarrow> (\<exists>e\<in>set evs. fails w2 e)" "r \<noteq> None \<longrightarrow> rest = []"
        by blast
      have cd: "cacheDeletes (t # ts)
          = ([DeleteCachedTrailData t, DeleteCachedChatMessages t] @ evs) @ rest"
        using ih(5) by (simp add: cacheDeletes_def)
      have tr: "trace w' = trace w @ ([DeleteCachedTrailData t, DeleteCachedChatMessages t] @ evs)"
        using ih(4) w2(4) by simp
      have fl: "r = None \<longleftrightarrow>
          (\<exists>e\<in>set ([DeleteCachedTrailData t, DeleteCachedChatMessages t] @ evs). fails w e)"
        using ih(6) w2(3) f1 f2 by auto
      from ih(1,2,3,7) w2(1,2,3) cd tr fl show ?thesis
        by (intro conjI exI[of _ "[DeleteCachedTrailData t, DeleteCachedChatMessages t] @ evs"]
            exI[of _ rest]) auto
    qed
  qed
qed

lemma deletePlanTry_array:
  assumes "\<not> fails w (PlanSelectTripIds planId)" "length (planRows w planId) = 1"
    and "field ''tripIds'' (hd (planRows w planId)) = JArr ids"
    and "deleteCaches ids
          (w\<lparr>trace := trace w @ [PlanSelectTripIds planId, TripsDeleteIn ids],
             tripsTable := filter (\<lambda>r. field ''trip_id'' r \<notin> set ids) (tripsTable w)\<rparr>)
         = (r, w2)"
  shows "deletePlanTry planId (w, h) =
     (if fails w (TripsDeleteIn ids)
      then (True, w\<lparr>trace := trace w @ [PlanSelectTripIds planId, TripsDeleteIn ids]\<rparr>, h)
      else if r = None then (True, w2, h)
      else if fails w (PlanDelete planId)
        then (True, w2\<lparr>trace := trace w2 @ [PlanDelete planId]\<rparr>,
              h\<lparr>trips := filter (\<lambda>t. (let i = field ''id'' t
                                        in if truthy i then i else JStr []) \<notin> set ids)
                             (trips h)\<rparr>)
      else (False,
            w2\<lparr>plansTable := filter (\<lambda>r. field ''plan_id'' r \<noteq> JStr planId) (plansTable w2),
               trace := trace w2 @ [PlanDelete planId]\<rparr>,
            h\<lparr>trips := filter (\<lambda>t. (let i = field ''id'' t
                                      in if truthy i then i else JStr []) \<notin> set ids)
                           (trips h),
              plans := filter (\<lambda>p. field ''id'' p \<noteq> JStr planId) (plans h),
              deletingItems := deletingItems h - {planId}\<rparr>))"
proof (cases r)
  case None
  with assms show ?thesis
    by (simp add: deletePlanTry_def deletePlanTrips_def planRows_def emit_def Let_def)
next
  case (Some u)
  with assms show ?thesis
    by (simp add: deletePlanTry_def deletePlanTrips_def planRows_def emit_def Let_def)
qed

lemma deletePlanTry_other:
  assumes "fails w (PlanSelectTripIds planId) \<or> length (planRows w planId) \<noteq> 1
           \<or> \<not> isArray (field ''tripIds'' (hd (planRows w planId)))"
    and "deletePlanTry planId (w, h) = (threw, w', h')"
  shows "\<exists>evs. trace w' = trace w @ evs \<and> set evs \<subseteq> {PlanSelectTripIds planId, PlanDelete planId}"
proof (cases "fails w (PlanSelectTripIds planId) \<or> length (planRows w planId) \<noteq> 1")
  case True
  with assms(2) show ?thesis
    by (auto simp: deletePlanTry_def planRows_def emit_def Let_def)
next
  case False
  with assms(1) have na: "\<not> isArray (field ''tripIds'' (hd (planRows w planId)))" by simp
  then have dt: "\<And>ws. deletePlanTrips (field ''tripIds'' (hd (planRows w planId))) ws
      = (True, fst ws, snd ws)"
    by (cases "field ''tripIds'' (hd (planRows w planId))")
       (auto simp: deletePlanTrips_def split: prod.splits)
  from False assms(2) show ?thesis
    by (auto simp: deletePlanTry_def planRows_def[symmetric] emit_def Let_def dt
        split: if_splits)
qed

lemma cacheDeletes_events:
  "e \<in> set (cacheDeletes ids)
     \<Longrightarrow> (\<exists>t. e = DeleteCachedTrailData t) \<or> (\<exists>t. e = DeleteCachedChatMessages t)"
  by (auto simp: cacheDeletes_def)

lemma handleDeletePlan_cases:
  "handleDeletePlan planId (w, h) = (w', h') \<Longrightarrow>
   deletePlanTry planId (w, h\<lparr>deletingItems := insert planId (deletingItems h)\<rparr>) = (threw, w1, h1)
   \<Longrightarrow> trace w' = trace w1 @ (if threw then [ConsoleError ''Error deleting plan and associated trips:'',
                                   Alert ''Error'' ''Could not delete plan or its trips.''] else [])
       \<and> tripsTable w' = tripsTable w1 \<and> plansTable w' = plansTable w1
       \<and> plans h' = plans h1 \<and> trips h' = trips h1"
  by (auto simp: handleDeletePlan_def emit_def split: if_splits)

text \<open>
  Claim C6. handleDeletePlan has no partial-failure recovery. A run that deletes the
  plan's trips and reaches the deletion of the plan row does it in this order: the
  plan's trip ids are read, the trips are deleted from the \<^verbatim>\<open>trips\<close> table, the two
  cache entries of each trip are deleted, and only then the plan row. If the trips have
  been deleted and a later call of the run fails (a cache deletion or the deletion of the
  plan row), nothing is rolled back: the trips are gone from the table, the plan row is
  still there, the local list of plans is unchanged, and the user gets the error alert.
\<close>

theorem handleDeletePlan_not_atomic:
  assumes run: "handleDeletePlan planId (w, h) = (w', h')"
  shows
  "(TripsDeleteIn ids \<in> set (issued w w') \<and> PlanDelete planId \<in> set (issued w w')
      \<longrightarrow> (\<exists>post. issued w w'
                    = [PlanSelectTripIds planId, TripsDeleteIn ids] @ cacheDeletes ids
                        @ PlanDelete planId # post))
   \<and> (TripsDeleteIn ids \<in> set (issued w w') \<and> \<not> fails w (TripsDeleteIn ids)
        \<and> (\<exists>e\<in>set (issued w w'). fails w e)
      \<longrightarrow> tripsTable w' = filter (\<lambda>r. field ''trip_id'' r \<notin> set ids) (tripsTable w)
          \<and> plansTable w' = plansTable w
          \<and> length (planRows w' planId) = 1
          \<and> plans h' = plans h
          \<and> Alert ''Error'' ''Could not delete plan or its trips.'' \<in> set (issued w w'))"
proof -
  let ?h = "h\<lparr>deletingItems := insert planId (deletingItems h)\<rparr>"
  let ?tail = "\<lambda>threw. if threw then [ConsoleError ''Error deleting plan and associated trips:'',
                                   Alert ''Error'' ''Could not delete plan or its trips.''] else []"
  obtain threw w1 h1 where tr0: "deletePlanTry planId (w, ?h) = (threw, w1, h1)"
    by (cases "deletePlanTry planId (w, ?h)") auto
  note fin = handleDeletePlan_cases[OF run tr0]
  show ?thesis
  proof (cases "fails w (PlanSelectTripIds planId) \<or> length (planRows w planId) \<noteq> 1
           \<or> \<not> isArray (field ''tripIds'' (hd (planRows w planId)))")
    case True
    from deletePlanTry_other[OF True tr0] obtain evs where
      evs: "trace w1 = trace w @ evs" "set evs \<subseteq> {PlanSelectTripIds planId, PlanDelete planId}"
      by blast
    have "issued w w' = evs @ ?tail threw" using evs(1) fin by (simp add: issued_def)
    with evs(2) have "TripsDeleteIn ids \<notin> set (issued w w')" by (auto split: if_splits)
    then show ?thesis by simp
  next
    case False
    then obtain ids0 where sel: "\<not> fails w (PlanSelectTripIds planId)"
      "length (planRows w planId) = 1"
      and arr: "field ''tripIds'' (hd (planRows w planId)) = JArr ids0"
      by (cases "field ''tripIds'' (hd (planRows w planId))") auto
    let ?w0 = "w\<lparr>trace := trace w @ [PlanSelectTripIds planId, TripsDeleteIn ids0],
                 tripsTable := filter (\<lambda>r. field ''trip_id'' r \<notin> set ids0) (tripsTable w)\<rparr>"
    obtain r w2 where dc: "deleteCaches ids0 ?w0 = (r, w2)"
      by (cases "deleteCaches ids0 ?w0") auto
    from deleteCaches_frame[OF dc] obtain evs rest where
      fr: "tripsTable w2 = filter (\<lambda>r. field ''trip_id'' r \<notin> set ids0) (tripsTable w)"
        "plansTable w2 = plansTable w"
      and tr: "trace w2 = trace w @ [PlanSelectTripIds planId, TripsDeleteIn ids0] @ evs"
      and cd: "cacheDeletes ids0 = evs @ rest"
      and fl: "r = None \<longleftrightarrow> (\<exists>e\<in>set evs. fails w e)"
      and full: "r \<noteq> None \<longrightarrow> rest = []"
      by auto
    have ev: "\<And>e. e \<in> set evs \<Longrightarrow>
        (\<exists>t. e = DeleteCachedTrailData t) \<or> (\<exists>t. e = DeleteCachedChatMessages t)"
      using cacheDeletes_events[of _ ids0] cd by auto
    have nev: "TripsDeleteIn ids \<notin> set evs" "PlanDelete planId \<notin> set evs" using ev by auto
    note eq = tr0[unfolded deletePlanTry_array[OF sel arr dc]]
    consider (a) "fails w (TripsDeleteIn ids0)"
      | (b) "\<not> fails w (TripsDeleteIn ids0)" "r = None"
      | (c) "\<not> fails w (TripsDeleteIn ids0)" "r \<noteq> None" "fails w (PlanDelete planId)"
      | (d) "\<not> fails w (TripsDeleteIn ids0)" "r \<noteq> None" "\<not> fails w (PlanDelete planId)"
      by blast
    then show ?thesis
    proof cases
      case a
      with eq have "threw" "trace w1 = trace w @ [PlanSelectTripIds planId, TripsDeleteIn ids0]"
        by auto
      with fin have "issued w w' = [PlanSelectTripIds planId, TripsDeleteIn ids0,
          ConsoleError ''Error deleting plan and associated trips:'',
          Alert ''Error'' ''Could not delete plan or its trips.'']"
        by (simp add: issued_def)
      with a show ?thesis by auto
    next
      case b
      with eq have t: "threw" "w1 = w2" "h1 = ?h" by auto
      with fin tr have iss: "issued w w' = [PlanSelectTripIds planId, TripsDeleteIn ids0] @ evs
          @ [ConsoleError ''Error deleting plan and associated trips:'',
             Alert ''Error'' ''Could not delete plan or its trips.'']"
        by (simp add: issued_def)
      have p: "PlanDelete planId \<notin> set (issued w w')" using nev by (simp add: iss)
      have i: "ids = ids0" if "TripsDeleteIn ids \<in> set (issued w w')"
        using that nev by (auto simp: iss)
      from fin t fr have tabs: "tripsTable w' = filter (\<lambda>r. field ''trip_id'' r \<notin> set ids0) (tripsTable w)"
        "plansTable w' = plansTable w" "plans h' = plans h" by simp_all
      from tabs(2) sel(2) have "length (planRows w' planId) = 1" by (simp add: planRows_def)
      with p i tabs show ?thesis by (auto simp: iss)
    next
      case c
      with eq have t: "threw" "w1 = w2\<lparr>trace := trace w2 @ [PlanDelete planId]\<rparr>"
        "plans h1 = plans h" by auto
      from c full cd have evs: "evs = cacheDeletes ids0" by simp
      with fin t tr have iss: "issued w w' = [PlanSelectTripIds planId, TripsDeleteIn ids0]
          @ cacheDeletes ids0 @ PlanDelete planId
          # [ConsoleError ''Error deleting plan and associated trips:'',
             Alert ''Error'' ''Could not delete plan or its trips.'']"
        by (simp add: issued_def)
      have i: "ids = ids0" if "TripsDeleteIn ids \<in> set (issued w w')"
        using that nev evs by (auto simp: iss)
      from fin t fr have tabs: "tripsTable w' = filter (\<lambda>r. field ''trip_id'' r \<notin> set ids0) (tripsTable w)"
        "plansTable w' = plansTable w" "plans h' = plans h" by simp_all
      from tabs(2) sel(2) have l: "length (planRows w' planId) = 1" by (simp add: planRows_def)
      have al: "Alert ''Error'' ''Could not delete plan or its trips.'' \<in> set (issued w w')"
        by (simp add: iss)
      from i tabs l al iss show ?thesis by blast
    next
      case d
      with eq have t: "\<not> threw" "trace w1 = trace w2 @ [PlanDelete planId]" by auto
      from d full cd have evs: "evs = cacheDeletes ids0" by simp
      with fin t tr have iss: "issued w w' = [PlanSelectTripIds planId, TripsDeleteIn ids0]
          @ cacheDeletes ids0 @ [PlanDelete planId]"
        by (simp add: issued_def)
      have i: "ids = ids0" if "TripsDeleteIn ids \<in> set (issued w w')"
        using that nev evs by (auto simp: iss)
      have nf: "\<not> (\<exists>e\<in>set (issued w w'). fails w e)"
        using d sel(1) fl evs by (auto simp: iss)
      from i nf iss show ?thesis by auto
    qed
  qed
qed

text \<open>
  The theorem at a plan over trips t1 and t2 on a backend that refuses to delete the
  plan: of three trips one is left, and the plan remains.
\<close>

theorem handleDeletePlan_not_atomic_witness:
  "TripsDeleteIn [JStr ''t1'', JStr ''t2'']
     \<in> set (issued planDeleteDownWorld
              (fst (handleDeletePlan ''p1'' (planDeleteDownWorld, emptyHome))))
   \<and> PlanDelete ''p1''
       \<in> set (issued planDeleteDownWorld
                (fst (handleDeletePlan ''p1'' (planDeleteDownWorld, emptyHome))))
   \<and> \<not> fails planDeleteDownWorld (TripsDeleteIn [JStr ''t1'', JStr ''t2''])
   \<and> fails planDeleteDownWorld (PlanDelete ''p1'')
   \<and> tripsTable planDeleteDownWorld = [lakeTrip, forestTrip, coastTrip]
   \<and> tripsTable (fst (handleDeletePlan ''p1'' (planDeleteDownWorld, emptyHome))) = [coastTrip]
   \<and> plansTable (fst (handleDeletePlan ''p1'' (planDeleteDownWorld, emptyHome))) = [alpsPlan]
   \<and> Alert ''Error'' ''Could not delete plan or its trips.''
       \<in> set (issued planDeleteDownWorld
                (fst (handleDeletePlan ''p1'' (planDeleteDownWorld, emptyHome))))
   \<and> take 7 (issued planDeleteDownWorld
                (fst (handleDeletePlan ''p1'' (planDeleteDownWorld, emptyHome))))
       = [PlanSelectTripIds ''p1'', TripsDeleteIn [JStr ''t1'', JStr ''t2''],
          DeleteCachedTrailData (JStr ''t1''), DeleteCachedChatMessages (JStr ''t1''),
          DeleteCachedTrailData (JStr ''t2''), DeleteCachedChatMessages (JStr ''t2''),
          PlanDelete ''p1'']"
proof -
  let ?r = "handleDeletePlan ''p1'' (planDeleteDownWorld, emptyHome)"
  let ?ids = "[JStr ''t1'', JStr ''t2'']"
  have h: "TripsDeleteIn ?ids \<in> set (issued planDeleteDownWorld (fst ?r))"
    "PlanDelete ''p1'' \<in> set (issued planDeleteDownWorld (fst ?r))"
    "\<not> fails planDeleteDownWorld (TripsDeleteIn ?ids)"
    "fails planDeleteDownWorld (PlanDelete ''p1'')"
    by code_simp+
  from h(2,4) have f: "\<exists>e\<in>set (issued planDeleteDownWorld (fst ?r)). fails planDeleteDownWorld e"
    by blast
  have e: "tripsTable planDeleteDownWorld = [lakeTrip, forestTrip, coastTrip]"
    "filter (\<lambda>r. field ''trip_id'' r \<notin> set ?ids) (tripsTable planDeleteDownWorld) = [coastTrip]"
    "plansTable planDeleteDownWorld = [alpsPlan]"
    "cacheDeletes ?ids = [DeleteCachedTrailData (JStr ''t1''), DeleteCachedChatMessages (JStr ''t1''),
          DeleteCachedTrailData (JStr ''t2''), DeleteCachedChatMessages (JStr ''t2'')]"
    by code_simp+
  note inst = handleDeletePlan_not_atomic[OF prod.collapse[symmetric, of ?r], of ?ids]
  from inst h f have a: "tripsTable (fst ?r)
      = filter (\<lambda>r. field ''trip_id'' r \<notin> set ?ids) (tripsTable planDeleteDownWorld)"
    "plansTable (fst ?r) = plansTable planDeleteDownWorld"
    "Alert ''Error'' ''Could not delete plan or its trips.''
       \<in> set (issued planDeleteDownWorld (fst ?r))"
    by blast+
  from inst h obtain post where "issued planDeleteDownWorld (fst ?r)
      = [PlanSelectTripIds ''p1'', TripsDeleteIn ?ids] @ cacheDeletes ?ids @ PlanDelete ''p1'' # post"
    by blast
  then have t: "take 7 (issued planDeleteDownWorld (fst ?r))
      = [PlanSelectTripIds ''p1'', TripsDeleteIn ?ids,
          DeleteCachedTrailData (JStr ''t1''), DeleteCachedChatMessages (JStr ''t1''),
          DeleteCachedTrailData (JStr ''t2''), DeleteCachedChatMessages (JStr ''t2''),
          PlanDelete ''p1'']"
    by (simp add: e(4))
  have a1: "tripsTable (fst ?r) = [coastTrip]" by (rule trans[OF a(1) e(2)])
  have a2: "plansTable (fst ?r) = [alpsPlan]" by (rule trans[OF a(2) e(3)])
  from h e(1) a1 a2 a(3) t show ?thesis by blast
qed

section \<open>Properties of fetchPlans and fetchTrips\<close>












section \<open>Properties of the view\<close>

text \<open>
  Claim C4 says that every optional field of a trip record is checked for presence
  before it is rendered or dereferenced. The code reads two fields without a check. A
  \<^verbatim>\<open>trips\<close> row without \<open>cellService\<close> is loaded and installed by fetchTripInfo;
  rendering it evaluates \<^verbatim>\<open>tripInfo.cellService.toLowerCase()\<close> (line 413) on
  undefined and throws. The same row has no \<open>coordinates\<close>;
  \<^verbatim>\<open>tripInfo?.coordinates.latitude\<close> (line 129) guards \<open>tripInfo\<close> only, and
  fetchWeather ends in an exception nobody catches.
\<close>

theorem infoTab_unchecked_fields:
  "snd (fetchTripInfo (Some ''t4'') JUndefined
         (emptyWorld\<lparr>tripsTable := [ridgeTrip]\<rparr>, initialInfoState)) = ridgeState
   \<and> field ''cellService'' ridgeTrip = JUndefined
   \<and> renderInfoTab utcRuntime ridgeState = RenderThrows
   \<and> field ''coordinates'' ridgeTrip = JUndefined
   \<and> fst (fetchWeather utcRuntime (emptyWorld, ridgeState)) = True"
  by code_simp

section \<open>Properties of formatDateRange\<close>

text \<open>
  Claim C10. formatDateRange returns a string on every input. When a Date construction
  or formatting call throws, it is the raw \<open>startDate\<close>, unchanged. Otherwise it is the
  start date formatted with month, day and year when the end date is absent (undefined
  or empty) or falls on the same calendar day (the two dates have the same
  \<^verbatim>\<open>toDateString()\<close>), and the range "start - end" with the start as month and day
  and the end as month, day and year when the days differ.
\<close>

theorem formatDateRange_cases:
  "(dateOperationThrows rt startDate endDate
      \<longrightarrow> formatDateRange rt startDate endDate = startDate)
   \<and> (\<not> dateOperationThrows rt startDate endDate \<and> \<not> strTruthy endDate
      \<longrightarrow> Some (formatDateRange rt startDate endDate)
            = toLocaleDateString rt MonthDayYear (the (newDate rt startDate)))
   \<and> (\<not> dateOperationThrows rt startDate endDate \<and> strTruthy endDate
        \<and> toDateString rt (the (newDate rt startDate))
            = toDateString rt (the (newDate rt (the endDate)))
      \<longrightarrow> Some (formatDateRange rt startDate endDate)
            = toLocaleDateString rt MonthDayYear (the (newDate rt startDate)))
   \<and> (\<not> dateOperationThrows rt startDate endDate \<and> strTruthy endDate
        \<and> toDateString rt (the (newDate rt startDate))
            \<noteq> toDateString rt (the (newDate rt (the endDate)))
      \<longrightarrow> formatDateRange rt startDate endDate
            = the (toLocaleDateString rt MonthDay (the (newDate rt startDate))) @ '' - ''
              @ the (toLocaleDateString rt MonthDayYear (the (newDate rt (the endDate)))))"
proof (cases "newDate rt startDate")
  case None
  then show ?thesis
    by (simp add: formatDateRange_def formatDateRangeTry_def dateOperationThrows_def)
next
  case start: (Some start)
  show ?thesis
  proof (cases "strTruthy endDate")
    case False
    with start show ?thesis
      by (cases "toLocaleDateString rt MonthDayYear start")
         (simp_all add: formatDateRange_def formatDateRangeTry_def dateOperationThrows_def)
  next
    case True
    show ?thesis
    proof (cases "newDate rt (the endDate)")
      case None
      with start True show ?thesis
        by (simp add: formatDateRange_def formatDateRangeTry_def dateOperationThrows_def)
    next
      case (Some e)
      with start True show ?thesis
        by (cases "toDateString rt start"; cases "toDateString rt e";
            cases "toLocaleDateString rt MonthDayYear start";
            cases "toLocaleDateString rt MonthDay start";
            cases "toLocaleDateString rt MonthDayYear e")
           (simp_all add: formatDateRange_def formatDateRangeTry_def dateOperationThrows_def)
    qed
  qed
qed

text \<open>
  The theorem at a runtime whose Date constructor throws, and at 1 June 2025 with no
  end date, with the same end date, and with 5 June 2025.
\<close>

lemma utc_dates:
  "newDate utcRuntime ''2025-06-01'' = Some (Some 1748736000000)"
  "newDate utcRuntime ''2025-06-05'' = Some (Some 1749081600000)"
  "toDateString utcRuntime (Some 1748736000000) = Some ''Sun Jun 01 2025''"
  "toDateString utcRuntime (Some 1749081600000) = Some ''Thu Jun 05 2025''"
  "toLocaleDateString utcRuntime MonthDayYear (Some 1748736000000) = Some ''Jun 1, 2025''"
  "toLocaleDateString utcRuntime MonthDay (Some 1748736000000) = Some ''Jun 1''"
  "toLocaleDateString utcRuntime MonthDayYear (Some 1749081600000) = Some ''Jun 5, 2025''"
  by code_simp+

theorem formatDateRange_cases_witness:
  "dateOperationThrows brokenDateRuntime ''2025-06-01'' None
   \<and> formatDateRange brokenDateRuntime ''2025-06-01'' None = ''2025-06-01''
   \<and> \<not> dateOperationThrows utcRuntime ''2025-06-01'' None \<and> \<not> strTruthy None
   \<and> formatDateRange utcRuntime ''2025-06-01'' None = ''Jun 1, 2025''
   \<and> \<not> dateOperationThrows utcRuntime ''2025-06-01'' (Some ''2025-06-01'')
   \<and> strTruthy (Some ''2025-06-01'')
   \<and> formatDateRange utcRuntime ''2025-06-01'' (Some ''2025-06-01'') = ''Jun 1, 2025''
   \<and> \<not> dateOperationThrows utcRuntime ''2025-06-01'' (Some ''2025-06-05'')
   \<and> strTruthy (Some ''2025-06-05'')
   \<and> toDateString utcRuntime (the (newDate utcRuntime ''2025-06-01''))
       \<noteq> toDateString utcRuntime (the (newDate utcRuntime ''2025-06-05''))
   \<and> formatDateRange utcRuntime ''2025-06-01'' (Some ''2025-06-05'') = ''Jun 1 - Jun 5, 2025''"
proof -
  have t: "dateOperationThrows brokenDateRuntime ''2025-06-01'' None"
    by (simp add: dateOperationThrows_def brokenDateRuntime_def)
  have a: "\<not> dateOperationThrows utcRuntime ''2025-06-01'' None" "\<not> strTruthy None"
    by (simp_all add: dateOperationThrows_def utc_dates strTruthy_def)
  have s: "\<not> dateOperationThrows utcRuntime ''2025-06-01'' (Some ''2025-06-01'')"
    "strTruthy (Some ''2025-06-01'')"
    "toDateString utcRuntime (the (newDate utcRuntime ''2025-06-01''))
       = toDateString utcRuntime (the (newDate utcRuntime (the (Some ''2025-06-01''))))"
    by (simp_all add: dateOperationThrows_def utc_dates strTruthy_def)
  have r: "\<not> dateOperationThrows utcRuntime ''2025-06-01'' (Some ''2025-06-05'')"
    "strTruthy (Some ''2025-06-05'')"
    "toDateString utcRuntime (the (newDate utcRuntime ''2025-06-01''))
       \<noteq> toDateString utcRuntime (the (newDate utcRuntime (the (Some ''2025-06-05''))))"
    by (simp_all add: dateOperationThrows_def utc_dates strTruthy_def)
  from formatDateRange_cases[of brokenDateRuntime "''2025-06-01''" None] t
  have 1: "formatDateRange brokenDateRuntime ''2025-06-01'' None = ''2025-06-01''" by blast
  from formatDateRange_cases[of utcRuntime "''2025-06-01''" None] a
  have "Some (formatDateRange utcRuntime ''2025-06-01'' None)
            = toLocaleDateString utcRuntime MonthDayYear (the (newDate utcRuntime ''2025-06-01''))"
    by blast
  then have 2: "formatDateRange utcRuntime ''2025-06-01'' None = ''Jun 1, 2025''"
    by (simp add: utc_dates)
  from formatDateRange_cases[of utcRuntime "''2025-06-01''" "Some ''2025-06-01''"] s
  have "Some (formatDateRange utcRuntime ''2025-06-01'' (Some ''2025-06-01''))
            = toLocaleDateString utcRuntime MonthDayYear (the (newDate utcRuntime ''2025-06-01''))"
    by blast
  then have 3: "formatDateRange utcRuntime ''2025-06-01'' (Some ''2025-06-01'') = ''Jun 1, 2025''"
    by (simp add: utc_dates)
  from formatDateRange_cases[of utcRuntime "''2025-06-01''" "Some ''2025-06-05''"] r
  have "formatDateRange utcRuntime ''2025-06-01'' (Some ''2025-06-05'')
      = the (toLocaleDateString utcRuntime MonthDay (the (newDate utcRuntime ''2025-06-01'')))
       @ '' - '' @ the (toLocaleDateString utcRuntime MonthDayYear
                         (the (newDate utcRuntime (the (Some ''2025-06-05'')))))"
    by blast
  then have 4: "formatDateRange utcRuntime ''2025-06-01'' (Some ''2025-06-05'')
      = ''Jun 1 - Jun 5, 2025''" by (simp add: utc_dates)
  from r(3) have r3: "toDateString utcRuntime (the (newDate utcRuntime ''2025-06-01''))
       \<noteq> toDateString utcRuntime (the (newDate utcRuntime ''2025-06-05''))" by simp
  from t a s(1,2) r(1,2) r3 1 2 3 4 show ?thesis by blast
qed

end
